theory Spec2Isabelle
  imports Main "HOL-Library.Multiset"
begin

section \<open>JavaScript numbers\<close>

text \<open>
  Line and column indices are JavaScript numbers, that is IEEE 754 doubles. The values
  handled here are integer-valued and are modelled by \<open>int\<close>; the source's \<open>+\<close> and
  \<open>-\<close> are the exact result rounded to the nearest double, ties to the even
  significand. A double has a significand of 53 bits: an integer of at most 53 bits
  is a double, a longer one is rounded to a multiple of \<open>2 ^ (bits - 53)\<close>.
  (The operands are doubles and the exact results stay below \<open>2 ^ 1024\<close>, so no
  infinity arises.)
\<close>

function bit_length :: "int \<Rightarrow> nat" where
  "bit_length n = (if n \<le> 0 then 0 else Suc (bit_length (n div 2)))"
  by pat_completeness auto
termination
  by (relation "measure nat") auto

declare bit_length.simps [simp del]

definition js_round :: "int \<Rightarrow> int" where
  "js_round n =
     (let m = \<bar>n\<bar>;
          q = 2 ^ (bit_length m - 53);
          lo = (m div q) * q;
          r = m mod q;
          v = (if 2 * r < q then lo
               else if q < 2 * r then lo + q
               else if even (m div q) then lo else lo + q)
      in if n < 0 then - v else v)"

definition js_add :: "int \<Rightarrow> int \<Rightarrow> int" where
  "js_add a b = js_round (a + b)"

definition js_sub :: "int \<Rightarrow> int \<Rightarrow> int" where
  "js_sub a b = js_round (a - b)"

section \<open>Protocol translation (protocol-translation.ts)\<close>

text \<open>
  The editor protocol's \<open>Position\<close> is zero-based (\<open>line\<close>, \<open>character\<close>); the
  subprocess protocol's \<open>Location\<close> is one-based (\<open>line\<close>, \<open>offset\<close>).
\<close>

record Position =
  line :: int
  character :: int

record Location =
  loc_line :: int
  offset :: int

record Range =
  range_start :: Position
  range_end :: Position

record TextSpan =
  span_start :: Location
  span_end :: Location

record FileSpan =
  fs_file :: string
  fs_start :: Location
  fs_end :: Location

record LspLocation =
  loc_uri :: string
  loc_range :: Range

text \<open>
  \<open>pathToUri\<close>: \<open>'file://' + (isWindows() ? '/' + p.replace(/\//g, '/') : p)\<close>.
  The platform test \<open>isWindows()\<close> reads \<open>process.platform\<close>; it is the parameter
  \<open>win\<close>. The replacement maps every slash to a slash.
\<close>

definition pathToUri :: "bool \<Rightarrow> string \<Rightarrow> string" where
  "pathToUri win p =
     ''file://'' @ (if win then ''/'' @ map (\<lambda>c. if c = CHR ''/'' then CHR ''/'' else c) p else p)"

definition toPosition :: "Location \<Rightarrow> Position" where
  "toPosition location =
     \<lparr>line = js_sub (loc_line location) 1, character = js_sub (offset location) 1\<rparr>"

definition toLocation :: "bool \<Rightarrow> FileSpan \<Rightarrow> LspLocation" where
  "toLocation win fileSpan =
     \<lparr>loc_uri = pathToUri win (fs_file fileSpan),
      loc_range = \<lparr>range_start = toPosition (fs_start fileSpan),
                   range_end = toPosition (fs_end fileSpan)\<rparr>\<rparr>"

text \<open>
  \<open>lsp.SymbolKind\<close>: the members that \<open>symbolKindsMapping\<close> uses.
\<close>

datatype SymbolKind =
  KConstant | KProperty | KClass | KFunction | KVariable | KConstructor | KEnum
  | KField | KFile | KMethod | KInterface | KModule

definition symbolKindsMapping :: "(string \<times> SymbolKind) list" where
  "symbolKindsMapping =
     [(''enum member'', KConstant),
      (''JSX attribute'', KProperty),
      (''local class'', KClass),
      (''local function'', KFunction),
      (''local var'', KVariable),
      (''type parameter'', KVariable),
      (''alias'', KVariable),
      (''class'', KClass),
      (''const'', KConstant),
      (''constructor'', KConstructor),
      (''enum'', KEnum),
      (''field'', KField),
      (''file'', KFile),
      (''function'', KFunction),
      (''getter'', KMethod),
      (''interface'', KInterface),
      (''let'', KVariable),
      (''method'', KMethod),
      (''module'', KModule),
      (''parameter'', KVariable),
      (''property'', KProperty),
      (''setter'', KMethod),
      (''var'', KVariable)]"

text \<open>
  \<open>toSymbolKind\<close>: \<open>symbolKindsMapping[tspKind] || lsp.SymbolKind.Variable\<close>. Every
  member of \<open>lsp.SymbolKind\<close> is a non-zero number, so the default is taken exactly
  when the table has no entry. (Names inherited from \<open>Object.prototype\<close> are not
  element kinds of the subprocess protocol and are outside the model.)
\<close>

definition toSymbolKind :: "string \<Rightarrow> SymbolKind" where
  "toSymbolKind tspKind =
     (case map_of symbolKindsMapping tspKind of Some k \<Rightarrow> k | None \<Rightarrow> KVariable)"

section \<open>The server (lsp-server.ts)\<close>

subsection \<open>Calls on the subprocess client\<close>

datatype CommandTypes =
  Open | Close | Change | Geterr | Definition | NavTree | CompletionDetails
  | Rename | Navto

text \<open>
  The argument objects the server builds. \<open>NavtoArgs\<close> carries an optional file,
  since \<open>lastFileOrDummy\<close> may yield \<open>rootPath\<close>, which may be null.
\<close>

datatype tsp_args =
  OpenArgs (oa_file: string) (oa_fileContent: string)
  | FileArgs (fa_file: string)
  | ChangeArgs (ca_file: string) (ca_start: Location) (ca_end: Location)
      (ca_insertString: string)
  | GeterrArgs (ga_delay: int) (ga_files: "string list")
  | FileLocationArgs (fl_file: string) (fl_location: Location)
  | CompletionDetailsArgs (cd_entryNames: "string list") (cd_file: string)
      (cd_location: Location)
  | NavtoArgs (na_file: "string option") (na_searchValue: string)

datatype tsp_call = Notify CommandTypes tsp_args | Request CommandTypes tsp_args

datatype error = TypeError | Rejected string

text \<open>
  A response of the subprocess; \<open>body\<close> is optional in every response type.
  The value \<open>reply\<close> of a request operation is the outcome of its expression
  \<open>await this.tspClient.request(...)\<close>: \<open>Inr response\<close> when the request is answered,
  \<open>Inl e\<close> when the promise is rejected or the call itself raises (on a server without
  a client the call raises a TypeError, and nothing is sent).
\<close>

record 'b Response =
  body :: "'b option"

text \<open>
  A logger call, by the method of the \<open>Logger\<close> interface that is called (\<open>error\<close>,
  \<open>warn\<close>, \<open>info\<close>, \<open>log\<close>) and its first argument. The server calls \<open>error\<close> and
  \<open>log\<close> only.
\<close>

datatype log_entry = Error string | Warn string | Info string | Log string

subsection \<open>Go to definition: the request arguments\<close>

record TextDocumentPositionParams =
  td_uri :: string
  position :: Position

text \<open>
  The argument object of \<open>definition\<close> (lines 146 to 150):
  \<open>{ file: path, line: params.position.line + 1, offset: params.position.character + 1 }\<close>.
\<close>

definition definition_args :: "string \<Rightarrow> Position \<Rightarrow> tsp_args" where
  "definition_args path pos =
     FileLocationArgs path
       \<lparr>loc_line = js_add (line pos) 1, offset = js_add (character pos) 1\<rparr>"

subsection \<open>Server state\<close>

text \<open>
  \<open>openedDocumentUris\<close> is a JavaScript \<open>Map\<close> from document URI to the time of
  the last open or change. A \<open>Map\<close> iterates in insertion order, \<open>set\<close> on a key
  already present keeps the key's place, and \<open>delete\<close> removes the entry: an
  association list, oldest insertion first.
\<close>

fun map_set :: "('k \<times> 'v) list \<Rightarrow> 'k \<Rightarrow> 'v \<Rightarrow> ('k \<times> 'v) list" where
  "map_set [] k v = [(k, v)]"
| "map_set ((k', v') # m) k v =
     (if k' = k then (k, v) # m else (k', v') # map_set m k v)"

definition map_delete :: "('k \<times> 'v) list \<Rightarrow> 'k \<Rightarrow> ('k \<times> 'v) list" where
  "map_delete m k = filter (\<lambda>e. fst e \<noteq> k) m"

record InitializeParams =
  rootUri :: "string option"
  rootPath :: "string option"

text \<open>
  A diagnostic of the subprocess protocol, and the body of a diagnostic event.
\<close>

record Diagnostic =
  diag_start :: Location
  diag_end :: Location
  diag_text :: string

record DiagnosticEventBody =
  ev_file :: string
  ev_diagnostics :: "Diagnostic list"

datatype EventTypes = SementicDiag | SyntaxDiag | OtherEvent string

record Event =
  ev_type :: string
  event :: EventTypes
  ev_body :: DiagnosticEventBody

record PublishDiagnosticsParams =
  pub_file :: string
  pub_diagnostics :: "Diagnostic list"

subsection \<open>The diagnostic queue\<close>

text \<open>
  Modelled from the spec: the class \<open>DiagnosticEventQueue\<close> (diagnostic-queue.ts) is
  not among the sources; the server only constructs it and calls
  \<open>addSemanticDiagnostic\<close> and \<open>addSyntacticDiagnostic\<close>. The spec's Diagnostic
  Coordinator keeps, per file, a bucket with the most recent syntactic and the most
  recent semantic diagnostic set, each independently absent until it first arrives.
  Each add updates its slot (creating the bucket if absent) and immediately publishes
  the union of both slots, not deduplicated across kinds: the syntactic set followed by
  the semantic set. Each function returns the new queue and the publish calls it made.
\<close>

record DiagnosticBucket =
  syntactic :: "Diagnostic list option"
  semantic :: "Diagnostic list option"

type_synonym DiagnosticEventQueue = "string \<Rightarrow> DiagnosticBucket option"

definition bucket_view :: "DiagnosticBucket \<Rightarrow> Diagnostic list" where
  "bucket_view b =
     (case syntactic b of None \<Rightarrow> [] | Some ds \<Rightarrow> ds)
     @ (case semantic b of None \<Rightarrow> [] | Some ds \<Rightarrow> ds)"

definition bucket_of :: "DiagnosticEventQueue \<Rightarrow> string \<Rightarrow> DiagnosticBucket" where
  "bucket_of q file =
     (case q file of None \<Rightarrow> \<lparr>syntactic = None, semantic = None\<rparr> | Some b \<Rightarrow> b)"

definition addSyntacticDiagnostic ::
  "DiagnosticEventQueue \<Rightarrow> Event \<Rightarrow> DiagnosticEventQueue \<times> PublishDiagnosticsParams list" where
  "addSyntacticDiagnostic q ev =
     (let file = ev_file (ev_body ev);
          b = (bucket_of q file)\<lparr>syntactic := Some (ev_diagnostics (ev_body ev))\<rparr>
      in (q(file \<mapsto> b), [\<lparr>pub_file = file, pub_diagnostics = bucket_view b\<rparr>]))"

definition addSemanticDiagnostic ::
  "DiagnosticEventQueue \<Rightarrow> Event \<Rightarrow> DiagnosticEventQueue \<times> PublishDiagnosticsParams list" where
  "addSemanticDiagnostic q ev =
     (let file = ev_file (ev_body ev);
          b = (bucket_of q file)\<lparr>semantic := Some (ev_diagnostics (ev_body ev))\<rparr>
      in (q(file \<mapsto> b), [\<lparr>pub_file = file, pub_diagnostics = bucket_view b\<rparr>]))"

text \<open>
  The server. \<open>tspClient\<close> is undefined until \<open>initialize\<close> assigns it (line 49);
  from then on it holds the calls made on the subprocess client (\<open>tspClient.notify\<close>,
  \<open>tspClient.request\<close>), oldest first. \<open>initializeParams\<close> is unset until
  \<open>initialize\<close> has run as well. \<open>published\<close> lists the calls of
  \<open>lspClient.publishDiagnostics\<close>, which the queue's publish callback makes;
  \<open>logged\<close> lists the logger calls.
\<close>

record LspServer =
  initializeParams :: "InitializeParams option"
  tspClient :: "tsp_call list option"
  openedDocumentUris :: "(string \<times> int) list"
  diagnosticQueue :: DiagnosticEventQueue
  published :: "PublishDiagnosticsParams list"
  logged :: "log_entry list"

definition new_LspServer :: LspServer where
  "new_LspServer =
     \<lparr>initializeParams = None, tspClient = None, openedDocumentUris = [],
      diagnosticQueue = Map.empty, published = [], logged = []\<rparr>"

definition tsp_sent :: "LspServer \<Rightarrow> tsp_call list" where
  "tsp_sent s = (case tspClient s of None \<Rightarrow> [] | Some calls \<Rightarrow> calls)"

definition logger_log :: "string \<Rightarrow> LspServer \<Rightarrow> LspServer" where
  "logger_log msg s = s\<lparr>logged := logged s @ [Log msg]\<rparr>"

definition logger_error :: "string \<Rightarrow> LspServer \<Rightarrow> LspServer" where
  "logger_error msg s = s\<lparr>logged := logged s @ [Error msg]\<rparr>"

text \<open>
  A call on \<open>this.tspClient\<close>: a TypeError while the client is undefined, and the
  call recorded otherwise.
\<close>

definition tsp_send :: "tsp_call \<Rightarrow> LspServer \<Rightarrow> error + LspServer" where
  "tsp_send c s =
     (case tspClient s of
        None \<Rightarrow> Inl TypeError
      | Some calls \<Rightarrow> Inr (s\<lparr>tspClient := Some (calls @ [c])\<rparr>))"

definition tsp_notify :: "CommandTypes \<Rightarrow> tsp_args \<Rightarrow> LspServer \<Rightarrow> error + LspServer" where
  "tsp_notify c a s = tsp_send (Notify c a) s"

text \<open>
  The state after the request of a request operation, whose outcome is \<open>reply\<close>: the
  request is recorded when there is a client.
\<close>

definition tsp_request :: "CommandTypes \<Rightarrow> tsp_args \<Rightarrow> LspServer \<Rightarrow> LspServer" where
  "tsp_request c a s = (case tsp_send (Request c a) s of Inl e \<Rightarrow> s | Inr s' \<Rightarrow> s')"

text \<open>
  \<open>initialize\<close> stores the parameters and assigns a new subprocess client. (It also
  starts the client and returns the constant capabilities; neither is modelled.)
\<close>

definition initialize :: "InitializeParams \<Rightarrow> LspServer \<Rightarrow> LspServer" where
  "initialize params s =
     logger_log ''onInitialize result''
       ((logger_log ''initialize'' s)\<lparr>initializeParams := Some params, tspClient := Some []\<rparr>)"

subsection \<open>Document lifecycle\<close>

text \<open>
  \<open>uriToPath\<close> is \<open>URI.parse(stringUri).fsPath\<close> of the library vscode-uri; it is
  the parameter \<open>uriToPath\<close> of every operation that uses it.

  A lifecycle operation returns \<open>Inr ()\<close>, or the error it raises, together with the
  server state it leaves behind; what it did before raising stays done.

  \<open>requestDiagnostics\<close>: the entries are sorted by \<open>(a, b) => a[1] - b[1]\<close>, that is
  by timestamp ascending (the rounded difference of two integers has the sign of the
  exact one; the sort is modelled as stable, and no result below depends on the order
  of entries with equal timestamps), the URIs are pushed one by one as paths, and one
  \<open>geterr\<close> request is made, whose promise the callers drop.
\<close>

definition requestDiagnostics ::
  "(string \<Rightarrow> string) \<Rightarrow> LspServer \<Rightarrow> (error + unit) \<times> LspServer" where
  "requestDiagnostics uriToPath s =
     (let orderedUris = map fst (sort_key snd (openedDocumentUris s));
          files = foldl (\<lambda>files uri. files @ [uriToPath uri]) [] orderedUris
      in case tsp_send (Request Geterr (GeterrArgs 0 files)) s of
           Inl e \<Rightarrow> (Inl e, s)
         | Inr s1 \<Rightarrow> (Inr (), s1))"

record DidOpenTextDocumentParams =
  do_uri :: string
  do_text :: string

text \<open>
  \<open>new Date().getTime()\<close> is the parameter \<open>now\<close> of open and change.
\<close>

definition didOpenTextDocument ::
  "(string \<Rightarrow> string) \<Rightarrow> int \<Rightarrow> DidOpenTextDocumentParams \<Rightarrow> LspServer
     \<Rightarrow> (error + unit) \<times> LspServer" where
  "didOpenTextDocument uriToPath now params s =
     (let path = uriToPath (do_uri params);
          s1 = logger_log ''onDidOpenTextDocument'' s
      in case tsp_notify Open (OpenArgs path (do_text params)) s1 of
           Inl e \<Rightarrow> (Inl e, s1)
         | Inr s2 \<Rightarrow>
             requestDiagnostics uriToPath
               (s2\<lparr>openedDocumentUris :=
                     map_set (openedDocumentUris s2) (do_uri params) now\<rparr>))"

definition didCloseTextDocument ::
  "(string \<Rightarrow> string) \<Rightarrow> DidOpenTextDocumentParams \<Rightarrow> LspServer
     \<Rightarrow> (error + unit) \<times> LspServer" where
  "didCloseTextDocument uriToPath params s =
     (let path = uriToPath (do_uri params);
          s1 = logger_log ''onDidCloseTextDocument'' s
      in case tsp_notify Close (FileArgs path) s1 of
           Inl e \<Rightarrow> (Inl e, s1)
         | Inr s2 \<Rightarrow>
             (Inr (),
              s2\<lparr>openedDocumentUris :=
                    map_delete (openedDocumentUris s2) (do_uri params)\<rparr>))"

record TextDocumentContentChangeEvent =
  change_range :: "Range option"
  change_text :: string

record DidChangeTextDocumentParams =
  dc_uri :: string
  contentChanges :: "TextDocumentContentChangeEvent list"

text \<open>
  The body of the loop over \<open>params.contentChanges\<close> (lines 117 to 132), and the
  loop, which a raised error leaves.
\<close>

definition notifyChange ::
  "string \<Rightarrow> string \<Rightarrow> LspServer \<Rightarrow> TextDocumentContentChangeEvent
     \<Rightarrow> (error + unit) \<times> LspServer" where
  "notifyChange uri path s change =
     (case change_range change of
        None \<Rightarrow>
          (let s1 = logger_error (''Received non-incremental change for '' @ uri) s
           in case tsp_notify Open (OpenArgs path (change_text change)) s1 of
                Inl e \<Rightarrow> (Inl e, s1)
              | Inr s2 \<Rightarrow> (Inr (), s2))
      | Some r \<Rightarrow>
          (case tsp_notify Change
              (ChangeArgs path
                 \<lparr>loc_line = js_add (line (range_start r)) 1,
                  offset = js_add (character (range_start r)) 1\<rparr>
                 \<lparr>loc_line = js_add (line (range_end r)) 1,
                  offset = js_add (character (range_end r)) 1\<rparr>
                 (change_text change)) s of
             Inl e \<Rightarrow> (Inl e, s)
           | Inr s2 \<Rightarrow> (Inr (), s2)))"

fun notifyChanges ::
  "string \<Rightarrow> string \<Rightarrow> TextDocumentContentChangeEvent list \<Rightarrow> LspServer
     \<Rightarrow> (error + unit) \<times> LspServer" where
  "notifyChanges uri path [] s = (Inr (), s)"
| "notifyChanges uri path (change # rest) s =
     (case notifyChange uri path s change of
        (Inl e, s1) \<Rightarrow> (Inl e, s1)
      | (Inr u, s1) \<Rightarrow> notifyChanges uri path rest s1)"

definition didChangeTextDocument ::
  "(string \<Rightarrow> string) \<Rightarrow> int \<Rightarrow> DidChangeTextDocumentParams \<Rightarrow> LspServer
     \<Rightarrow> (error + unit) \<times> LspServer" where
  "didChangeTextDocument uriToPath now params s =
     (let path = uriToPath (dc_uri params);
          s1 = logger_log ''onDidCloseTextDocument'' s;
          s2 = s1\<lparr>openedDocumentUris := map_set (openedDocumentUris s1) (dc_uri params) now\<rparr>
      in case notifyChanges (dc_uri params) path (contentChanges params) s2 of
           (Inl e, s3) \<Rightarrow> (Inl e, s3)
         | (Inr u, s3) \<Rightarrow> requestDiagnostics uriToPath s3)"

subsection \<open>Events of the subprocess\<close>

definition onTsEvent :: "Event \<Rightarrow> LspServer \<Rightarrow> LspServer" where
  "onTsEvent ev s =
     (if event ev = SementicDiag then
        (let (q, pubs) = addSemanticDiagnostic (diagnosticQueue s) ev
         in s\<lparr>diagnosticQueue := q, published := published s @ pubs\<rparr>)
      else if event ev = SyntaxDiag then
        (let (q, pubs) = addSyntacticDiagnostic (diagnosticQueue s) ev
         in s\<lparr>diagnosticQueue := q, published := published s @ pubs\<rparr>)
      else logger_log (''Ignored event : '' @ ev_type ev) s)"

subsection \<open>Go to definition\<close>

text \<open>
  Every request operation is asynchronous: it makes its request, awaits the outcome
  and then computes its result. The outcome is the parameter \<open>reply\<close>; the operation
  returns its result, or the error it rejects with, and the server state after the
  request.
\<close>

definition lsp_definition ::
  "(string \<Rightarrow> string) \<Rightarrow> bool \<Rightarrow> TextDocumentPositionParams
     \<Rightarrow> error + FileSpan list Response \<Rightarrow> LspServer
     \<Rightarrow> (error + LspLocation list) \<times> LspServer" where
  "lsp_definition uriToPath win params reply s =
     (let path = uriToPath (td_uri params);
          s1 = logger_log ''definition'' s;
          s2 = tsp_request Definition (definition_args path (position params)) s1
      in (case reply of
            Inl e \<Rightarrow> Inl e
          | Inr result \<Rightarrow>
              Inr (case body result of Some b \<Rightarrow> map (toLocation win) b | None \<Rightarrow> []),
          s2))"

subsection \<open>Document symbols\<close>

datatype NavigationTree =
  NavigationTree (nav_text: string) (nav_kind: string) (spans: "TextSpan list")
    (childItems: "NavigationTree list option")

record SymbolInformation =
  sym_name :: string
  sym_kind :: SymbolKind
  sym_range :: Range
  sym_uri :: string
  containerName :: "string option"

text \<open>
  \<open>lsp.SymbolInformation.create(name, kind, range, uri, containerName)\<close> is a factory
  of the library vscode-languageserver: it builds \<open>{ name, kind, location: { uri,
  range } }\<close> and stores the container name only \<open>if (containerName)\<close>, that is when
  it is neither undefined nor the empty string.
\<close>

definition SymbolInformation_create ::
  "string \<Rightarrow> SymbolKind \<Rightarrow> Range \<Rightarrow> string \<Rightarrow> string option \<Rightarrow> SymbolInformation" where
  "SymbolInformation_create name k rng uri container =
     \<lparr>sym_name = name, sym_kind = k, sym_range = rng, sym_uri = uri,
      containerName =
        (case container of
           None \<Rightarrow> None
         | Some c \<Rightarrow> if c \<noteq> [] then Some c else None)\<rparr>"

text \<open>
  \<open>collectSymbol\<close> is the recursive closure of \<open>documentSymbol\<close>; its acceptor
  pushes onto the array \<open>result\<close>, which is threaded through here.
  \<open>element.spans[0]\<close> and \<open>element.spans[element.spans.length - 1]\<close> are both
  undefined exactly when \<open>spans\<close> is empty. \<open>collectChildren\<close> is the loop over
  \<open>element.childItems\<close>.
\<close>

fun collectSymbol ::
    "string \<Rightarrow> NavigationTree \<Rightarrow> string option \<Rightarrow> SymbolInformation list
       \<Rightarrow> SymbolInformation list"
  and collectChildren ::
    "string \<Rightarrow> NavigationTree list \<Rightarrow> string \<Rightarrow> SymbolInformation list
       \<Rightarrow> SymbolInformation list" where
  "collectSymbol uri (NavigationTree etext ekind espans echildren) parent result =
     (let result1 =
        (case espans of
           [] \<Rightarrow> result
         | start # _ \<Rightarrow>
             result @
               [SymbolInformation_create etext (toSymbolKind ekind)
                  \<lparr>range_start = toPosition (span_start start),
                   range_end = toPosition (span_end (last espans))\<rparr>
                  uri parent])
      in case echildren of
           None \<Rightarrow> result1
         | Some children \<Rightarrow> collectChildren uri children etext result1)"
| "collectChildren uri [] etext result = result"
| "collectChildren uri (child # rest) etext result =
     collectChildren uri rest etext (collectSymbol uri child (Some etext) result)"

definition documentSymbol ::
  "(string \<Rightarrow> string) \<Rightarrow> TextDocumentPositionParams
     \<Rightarrow> error + NavigationTree Response \<Rightarrow> LspServer
     \<Rightarrow> (error + SymbolInformation list) \<times> LspServer" where
  "documentSymbol uriToPath params reply s =
     (let path = uriToPath (td_uri params);
          s1 = logger_log ''symbol'' s;
          s2 = tsp_request NavTree (FileArgs path) s1
      in (case reply of
            Inl e \<Rightarrow> Inl e
          | Inr response \<Rightarrow>
              (case body response of
                 None \<Rightarrow> Inr []
               | Some tree \<Rightarrow> Inr (collectSymbol (td_uri params) tree None [])),
          s2))"

text \<open>
  The flattening as the specification words it: the nodes of the tree in document
  order (a node before its children, children in order), each with the display text of
  its parent; the nodes without spans are dropped, and every other node yields one
  symbol whose range runs from the start of its first span to the end of its last.
  \<open>claimed_symbol\<close> gives every child its parent's display text as container name,
  as the claims say; \<open>spec_symbol\<close> gives it only when that text is not empty.
\<close>

fun spec_nodes :: "string option \<Rightarrow> NavigationTree \<Rightarrow> (string option \<times> NavigationTree) list" where
  "spec_nodes parent (NavigationTree t k sp ch) =
     (parent, NavigationTree t k sp ch)
       # (case ch of None \<Rightarrow> [] | Some cs \<Rightarrow> concat (map (spec_nodes (Some t)) cs))"

definition has_spans :: "string option \<times> NavigationTree \<Rightarrow> bool" where
  "has_spans pn = (spans (snd pn) \<noteq> [])"

definition claimed_symbol :: "string \<Rightarrow> string option \<times> NavigationTree \<Rightarrow> SymbolInformation" where
  "claimed_symbol uri pn =
     \<lparr>sym_name = nav_text (snd pn), sym_kind = toSymbolKind (nav_kind (snd pn)),
      sym_range = \<lparr>range_start = toPosition (span_start (hd (spans (snd pn)))),
                   range_end = toPosition (span_end (last (spans (snd pn))))\<rparr>,
      sym_uri = uri, containerName = fst pn\<rparr>"

definition claimed_documentSymbol :: "string \<Rightarrow> NavigationTree \<Rightarrow> SymbolInformation list" where
  "claimed_documentSymbol uri tree =
     map (claimed_symbol uri) (filter has_spans (spec_nodes None tree))"

definition spec_container :: "string option \<Rightarrow> string option" where
  "spec_container parent =
     (case parent of None \<Rightarrow> None | Some t \<Rightarrow> if t = [] then None else Some t)"

definition spec_symbol :: "string \<Rightarrow> string option \<times> NavigationTree \<Rightarrow> SymbolInformation" where
  "spec_symbol uri pn = (claimed_symbol uri pn)\<lparr>containerName := spec_container (fst pn)\<rparr>"

definition spec_documentSymbol :: "string \<Rightarrow> NavigationTree \<Rightarrow> SymbolInformation list" where
  "spec_documentSymbol uri tree =
     map (spec_symbol uri) (filter has_spans (spec_nodes None tree))"

definition named_parents :: "NavigationTree \<Rightarrow> bool" where
  "named_parents tree = (Some [] \<notin> fst ` set (spec_nodes None tree))"

subsection \<open>Completion resolve\<close>

record CompletionData =
  cdata_file :: string
  cdata_line :: int
  cdata_offset :: int

record CompletionItem =
  label :: string
  data :: "CompletionData option"
  documentation :: "string option"

record SymbolDisplayPart =
  part_text :: string
  part_kind :: string

record CompletionEntryDetails =
  details_name :: string
  details_documentation :: "SymbolDisplayPart list"

text \<open>\<open>Array.prototype.join\<close> with a line feed as separator.\<close>

fun join_lines :: "string list \<Rightarrow> string" where
  "join_lines [] = []"
| "join_lines [x] = x"
| "join_lines (x # y # rest) = x @ [CHR 0x0A] @ join_lines (y # rest)"

text \<open>
  \<open>completionResolve\<close> reads \<open>item.data.file\<close> while it builds the request: an item
  without \<open>data\<close> raises a TypeError before any request is made. So does
  \<open>result.body[0].documentation\<close> on an empty body array. The item may carry any
  further fields (the record's extension); the source touches \<open>documentation\<close> only.
\<close>

definition completionResolve ::
  "'z CompletionItem_scheme \<Rightarrow> error + CompletionEntryDetails list Response \<Rightarrow> LspServer
     \<Rightarrow> (error + 'z CompletionItem_scheme) \<times> LspServer" where
  "completionResolve item reply s =
     (let s1 = logger_log ''completion/resolve'' s
      in case data item of
           None \<Rightarrow> (Inl TypeError, s1)
         | Some d \<Rightarrow>
             (let s2 = tsp_request CompletionDetails
                         (CompletionDetailsArgs [label item] (cdata_file d)
                            \<lparr>loc_line = cdata_line d, offset = cdata_offset d\<rparr>) s1
              in (case reply of
                    Inl e \<Rightarrow> Inl e
                  | Inr result \<Rightarrow>
                      (case body result of
                         None \<Rightarrow> Inr item
                       | Some [] \<Rightarrow> Inl TypeError
                       | Some (details # _) \<Rightarrow>
                           Inr (item\<lparr>documentation :=
                                  Some (join_lines (map part_text
                                    (details_documentation details)))\<rparr>)),
                  s2)))"

subsection \<open>Rename\<close>

record RenameParams =
  rn_uri :: string
  rn_position :: Position
  newName :: string

record RenameInfo =
  canRename :: bool

record SpanGroup =
  sg_file :: string
  sg_locs :: "TextSpan list"

record RenameResponseBody =
  info :: RenameInfo
  locs :: "SpanGroup list"

record TextEdit =
  newText :: string
  te_range :: Range

text \<open>
  \<open>WorkspaceEdit.changes\<close> is an object keyed by URI; its keys keep insertion order.
\<close>

record WorkspaceEdit =
  changes :: "(string \<times> TextEdit list) list"

text \<open>
  The body of \<open>result.body.locs.forEach\<close>: the edits of a span group are pushed onto
  the array stored under the group's URI, which is created when absent.
\<close>

definition rename_group ::
  "bool \<Rightarrow> string \<Rightarrow> (string \<times> TextEdit list) list \<Rightarrow> SpanGroup
     \<Rightarrow> (string \<times> TextEdit list) list" where
  "rename_group win new_name chs spanGroup =
     (let uri = pathToUri win (sg_file spanGroup);
          edits = map (\<lambda>textSpan.
                    \<lparr>newText = new_name,
                     te_range = \<lparr>range_start = toPosition (span_start textSpan),
                                 range_end = toPosition (span_end textSpan)\<rparr>\<rparr>)
                    (sg_locs spanGroup)
      in case map_of chs uri of
           Some textEdits \<Rightarrow> map_set chs uri (textEdits @ edits)
         | None \<Rightarrow> chs @ [(uri, edits)])"

definition rename ::
  "(string \<Rightarrow> string) \<Rightarrow> bool \<Rightarrow> RenameParams \<Rightarrow> error + RenameResponseBody Response
     \<Rightarrow> LspServer \<Rightarrow> (error + WorkspaceEdit) \<times> LspServer" where
  "rename uriToPath win params reply s =
     (let path = uriToPath (rn_uri params);
          s1 = logger_log ''onRename'' s;
          s2 = tsp_request Rename
                 (FileLocationArgs path
                    \<lparr>loc_line = js_add (line (rn_position params)) 1,
                     offset = js_add (character (rn_position params)) 1\<rparr>) s1
      in (case reply of
            Inl e \<Rightarrow> Inl e
          | Inr result \<Rightarrow>
              (case body result of
                 None \<Rightarrow> Inr \<lparr>changes = []\<rparr>
               | Some b \<Rightarrow>
                   if \<not> canRename (info b) \<or> locs b = [] then Inr \<lparr>changes = []\<rparr>
                   else Inr \<lparr>changes =
                          foldl (rename_group win (newName params)) [] (locs b)\<rparr>),
          s2))"

subsection \<open>Workspace symbols\<close>

text \<open>
  \<open>lastFileOrDummy\<close>: the loop over \<open>openedDocumentUris.keys()\<close> returns in its first
  iteration, so it yields the path of the first key of the map. With no key,
  \<open>initializeParams.rootUri\<close> is tested for truthiness (null, undefined and the empty
  string are falsy) and \<open>rootPath\<close> is returned as it is, null included. Reading
  \<open>rootUri\<close> before \<open>initialize\<close> has run raises a TypeError.
\<close>

definition lastFileOrDummy :: "(string \<Rightarrow> string) \<Rightarrow> LspServer \<Rightarrow> error + string option" where
  "lastFileOrDummy uriToPath s =
     (case openedDocumentUris s of
        (uri, _) # _ \<Rightarrow> Inr (Some (uriToPath uri))
      | [] \<Rightarrow>
          (case initializeParams s of
             None \<Rightarrow> Inl TypeError
           | Some ip \<Rightarrow>
               (case rootUri ip of
                  Some u \<Rightarrow> if u \<noteq> [] then Inr (Some (uriToPath u)) else Inr (rootPath ip)
                | None \<Rightarrow> Inr (rootPath ip))))"

record NavtoItem =
  navto_name :: string
  navto_kind :: string
  navto_file :: string
  navto_start :: Location
  navto_end :: Location

record WorkspaceSymbolParams =
  query :: string

definition workspaceSymbol ::
  "(string \<Rightarrow> string) \<Rightarrow> bool \<Rightarrow> WorkspaceSymbolParams \<Rightarrow> error + NavtoItem list Response
     \<Rightarrow> LspServer \<Rightarrow> (error + SymbolInformation list) \<times> LspServer" where
  "workspaceSymbol uriToPath win params reply s =
     (case lastFileOrDummy uriToPath s of
        Inl e \<Rightarrow> (Inl e, s)
      | Inr file \<Rightarrow>
          (let s1 = tsp_request Navto (NavtoArgs file (query params)) s
           in (case reply of
                 Inl e \<Rightarrow> Inl e
               | Inr result \<Rightarrow>
                   (case body result of
                      None \<Rightarrow> Inr []
                    | Some b \<Rightarrow>
                        Inr (map (\<lambda>item.
                               \<lparr>sym_name = navto_name item,
                                sym_kind = toSymbolKind (navto_kind item),
                                sym_range = \<lparr>range_start = toPosition (navto_start item),
                                             range_end = toPosition (navto_end item)\<rparr>,
                                sym_uri = pathToUri win (navto_file item),
                                containerName = None\<rparr>) b)),
               s1)))"

subsection \<open>Reading the calls made on the subprocess client\<close>

text \<open>
  \<open>is_warning\<close> recognises a logger call at warning level, \<open>is_geterr\<close> a
  re-analysis request. \<open>change_call\<close> is the call expected for one content change: a
  full-text \<open>open\<close> notification when the change has no range, an incremental
  \<open>change\<close> notification when it has one, with 1 added to every coordinate the way
  the source adds it. \<open>safe_position\<close> holds of the positions whose coordinates are
  non-negative integers below \<open>2 ^ 53\<close>.
\<close>

fun is_warning :: "log_entry \<Rightarrow> bool" where
  "is_warning (Warn msg) = True"
| "is_warning e = False"

fun is_geterr :: "tsp_call \<Rightarrow> bool" where
  "is_geterr (Request Geterr a) = True"
| "is_geterr c = False"

definition change_call :: "string \<Rightarrow> TextDocumentContentChangeEvent \<Rightarrow> tsp_call" where
  "change_call path c =
     (case change_range c of
        None \<Rightarrow> Notify Open (OpenArgs path (change_text c))
      | Some r \<Rightarrow>
          Notify Change
            (ChangeArgs path
               \<lparr>loc_line = js_add (line (range_start r)) 1,
                offset = js_add (character (range_start r)) 1\<rparr>
               \<lparr>loc_line = js_add (line (range_end r)) 1,
                offset = js_add (character (range_end r)) 1\<rparr>
               (change_text c)))"

definition safe_position :: "Position \<Rightarrow> bool" where
  "safe_position pos =
     (0 \<le> line pos \<and> line pos < 2 ^ 53 \<and> 0 \<le> character pos \<and> character pos < 2 ^ 53)"

subsection \<open>Example inputs\<close>

text \<open>
  Concrete inputs for the instances below. On the URIs used there, \<open>uriToPath\<close> is
  \<open>drop 7\<close>: it strips the prefix \<open>file://\<close>.
\<close>

definition ex_server :: LspServer where
  "ex_server =
     initialize \<lparr>rootUri = Some ''file:///proj'', rootPath = Some ''/proj''\<rparr> new_LspServer"

definition ex_open :: "string \<Rightarrow> DidOpenTextDocumentParams" where
  "ex_open uri = \<lparr>do_uri = uri, do_text = ''let x = 1''\<rparr>"

definition ex_two_open :: LspServer where
  "ex_two_open =
     snd (didOpenTextDocument (drop 7) 2 (ex_open ''file:///b.ts'')
       (snd (didOpenTextDocument (drop 7) 1 (ex_open ''file:///a.ts'') ex_server)))"

definition ex_change :: DidChangeTextDocumentParams where
  "ex_change =
     \<lparr>dc_uri = ''file:///a.ts'',
      contentChanges =
        [\<lparr>change_range = None, change_text = ''x''\<rparr>,
         \<lparr>change_range = Some \<lparr>range_start = \<lparr>line = 0, character = 2\<rparr>,
                               range_end = \<lparr>line = 1, character = 0\<rparr>\<rparr>,
          change_text = ''y''\<rparr>]\<rparr>"

definition ex_far_change :: DidChangeTextDocumentParams where
  "ex_far_change =
     \<lparr>dc_uri = ''file:///a.ts'',
      contentChanges =
        [\<lparr>change_range = Some \<lparr>range_start = \<lparr>line = 2 ^ 53, character = 0\<rparr>,
                               range_end = \<lparr>line = 2 ^ 53, character = 0\<rparr>\<rparr>,
          change_text = ''y''\<rparr>]\<rparr>"

definition ex_diag :: "string \<Rightarrow> Diagnostic" where
  "ex_diag msg = \<lparr>diag_start = \<lparr>loc_line = 1, offset = 1\<rparr>,
                  diag_end = \<lparr>loc_line = 1, offset = 4\<rparr>, diag_text = msg\<rparr>"

definition ex_event :: "EventTypes \<Rightarrow> string \<Rightarrow> Diagnostic list \<Rightarrow> Event" where
  "ex_event kind file ds =
     \<lparr>ev_type = ''event'', event = kind, ev_body = \<lparr>ev_file = file, ev_diagnostics = ds\<rparr>\<rparr>"

definition ex_reported :: LspServer where
  "ex_reported =
     onTsEvent (ex_event SyntaxDiag ''/a.ts'' [ex_diag ''syntax''])
       (snd (didOpenTextDocument (drop 7) 1 (ex_open ''file:///a.ts'') ex_server))"

definition ex_span :: "int \<Rightarrow> int \<Rightarrow> TextSpan" where
  "ex_span l1 l2 = \<lparr>span_start = \<lparr>loc_line = l1, offset = 1\<rparr>,
                    span_end = \<lparr>loc_line = l2, offset = 2\<rparr>\<rparr>"

definition ex_leaf :: NavigationTree where
  "ex_leaf = NavigationTree ''f'' ''function'' [ex_span 5 6] (Some [])"

definition ex_spanless :: NavigationTree where
  "ex_spanless = NavigationTree ''B'' ''module'' [] (Some [ex_leaf])"

definition ex_tree :: NavigationTree where
  "ex_tree =
     NavigationTree ''<global>'' ''script'' []
       (Some [NavigationTree ''A'' ''class'' [ex_span 1 3, ex_span 7 9]
                (Some [NavigationTree ''m'' ''method'' [ex_span 2 2] None]),
              ex_spanless])"

definition ex_unnamed :: NavigationTree where
  "ex_unnamed = NavigationTree [] ''module'' [] (Some [ex_leaf])"

definition ex_position :: TextDocumentPositionParams where
  "ex_position = \<lparr>td_uri = ''file:///a.ts'', position = \<lparr>line = 0, character = 7\<rparr>\<rparr>"

definition ex_far_position :: TextDocumentPositionParams where
  "ex_far_position = \<lparr>td_uri = ''file:///a.ts'', position = \<lparr>line = 2 ^ 53, character = 0\<rparr>\<rparr>"

definition ex_symbol ::
  "string \<Rightarrow> SymbolKind \<Rightarrow> int \<Rightarrow> int \<Rightarrow> string option \<Rightarrow> SymbolInformation" where
  "ex_symbol name k l1 l2 container =
     \<lparr>sym_name = name, sym_kind = k,
      sym_range = \<lparr>range_start = \<lparr>line = l1, character = 0\<rparr>,
                   range_end = \<lparr>line = l2, character = 1\<rparr>\<rparr>,
      sym_uri = ''file:///a.ts'', containerName = container\<rparr>"

definition ex_rename :: RenameParams where
  "ex_rename = \<lparr>rn_uri = ''file:///a.ts'', rn_position = \<lparr>line = 0, character = 4\<rparr>,
                newName = ''y''\<rparr>"

definition ex_item :: CompletionItem where
  "ex_item = \<lparr>label = ''foo'',
              data = Some \<lparr>cdata_file = ''/a.ts'', cdata_line = 1, cdata_offset = 5\<rparr>,
              documentation = None\<rparr>"

section \<open>Position round trip\<close>

lemma bit_length_le: "n < 2 ^ k \<Longrightarrow> bit_length n \<le> k"
proof (induction k arbitrary: n)
  case 0
  then show ?case by (simp add: bit_length.simps)
next
  case (Suc k)
  show ?case
  proof (cases "n \<le> 0")
    case True
    then show ?thesis by (simp add: bit_length.simps)
  next
    case False
    from Suc.prems have "n div 2 < 2 ^ k" by simp
    then have "bit_length (n div 2) \<le> k" by (rule Suc.IH)
    with False show ?thesis by (subst bit_length.simps) simp
  qed
qed

lemma js_round_exact: "\<bar>n\<bar> < 2 ^ 53 \<Longrightarrow> js_round n = n"
proof -
  assume "\<bar>n\<bar> < 2 ^ 53"
  then have "bit_length \<bar>n\<bar> \<le> 53"
    by (rule bit_length_le)
  then have "bit_length \<bar>n\<bar> - 53 = 0"
    by simp
  then show ?thesis by (simp add: js_round_def Let_def)
qed

lemma js_round_2_53: "js_round 9007199254740992 = 9007199254740992"
  by code_simp

lemma js_add_2_53: "js_add 9007199254740992 1 = 9007199254740992"
  by code_simp

lemma js_sub_2_53: "js_sub 9007199254740992 1 = 9007199254740991"
  by code_simp

lemma js_add_1: "0 \<le> n \<Longrightarrow> n < 2 ^ 53 \<Longrightarrow> js_add n 1 = n + 1"
proof -
  assume n: "0 \<le> n" "n < 2 ^ 53"
  show ?thesis
  proof (cases "n + 1 < 2 ^ 53")
    case True
    with n show ?thesis by (simp add: js_add_def js_round_exact)
  next
    case False
    with n have "n + 1 = 9007199254740992" by simp
    then show ?thesis by (simp add: js_add_def js_round_2_53)
  qed
qed

lemma js_sub_1: "0 < n \<Longrightarrow> n \<le> 2 ^ 53 \<Longrightarrow> js_sub n 1 = n - 1"
  by (simp add: js_sub_def js_round_exact)

lemma js_round_trip: "0 \<le> n \<Longrightarrow> n < 2 ^ 53 \<Longrightarrow> js_sub (js_add n 1) 1 = n"
  by (simp add: js_add_1 js_sub_1)

lemma lsp_definition_sent:
  "tspClient s = Some calls \<Longrightarrow>
   tsp_sent (snd (lsp_definition uriToPath win params reply s))
     = tsp_sent s
         @ [Request Definition (definition_args (uriToPath (td_uri params)) (position params))]"
  by (simp add: lsp_definition_def Let_def tsp_request_def tsp_send_def tsp_sent_def
      logger_log_def)

text \<open>
  Claim C3 says that for all non-negative integers line and character, converting a
  zero-based editor position to one-based subprocess coordinates (adding 1 to line
  and character) and converting back with \<open>toPosition\<close> (subtracting 1 from line and
  offset) yields the original position. The source adds and subtracts in double
  arithmetic: at line \<open>2 ^ 53\<close> the request of \<open>definition\<close> carries line \<open>2 ^ 53\<close>
  again, and \<open>toPosition\<close> turns it into \<open>2 ^ 53 - 1\<close>.
\<close>

theorem position_round_trip_beyond_2_53:
  "line (position ex_far_position) = 9007199254740992
   \<and> loc_line (fl_location (definition_args ''/a.ts'' (position ex_far_position)))
       = 9007199254740992
   \<and> line (toPosition (fl_location (definition_args ''/a.ts'' (position ex_far_position))))
       = 9007199254740991"
  by (simp add: ex_far_position_def definition_args_def toPosition_def js_add_2_53 js_sub_2_53)

text \<open>
  Claim C3, amended. For all non-negative integers line and character below
  \<open>2 ^ 53\<close>, converting a zero-based editor position to one-based subprocess
  coordinates (as the request that \<open>definition\<close> sends on a server with a client
  does: its line is the editor's line plus 1, its offset the editor's character plus
  1) and converting back with \<open>toPosition\<close> yields the original position.
\<close>

theorem position_round_trip:
  assumes "safe_position (position params)"
  shows "loc_line (fl_location (definition_args path (position params)))
           = line (position params) + 1
       \<and> offset (fl_location (definition_args path (position params)))
           = character (position params) + 1
       \<and> toPosition (fl_location (definition_args path (position params)))
           = position params
       \<and> (tspClient s \<noteq> None \<longrightarrow>
            tsp_sent (snd (lsp_definition uriToPath win params reply s))
              = tsp_sent s
                  @ [Request Definition
                       (definition_args (uriToPath (td_uri params)) (position params))])"
proof -
  from assms have l: "0 \<le> line (position params)" "line (position params) < 2 ^ 53"
    and c: "0 \<le> character (position params)" "character (position params) < 2 ^ 53"
    by (simp_all add: safe_position_def)
  have "toPosition (fl_location (definition_args path (position params)))
      = \<lparr>line = line (position params), character = character (position params)\<rparr>"
    using l c by (simp add: toPosition_def definition_args_def js_round_trip)
  then have "toPosition (fl_location (definition_args path (position params)))
      = position params"
    by simp
  moreover have "loc_line (fl_location (definition_args path (position params)))
      = line (position params) + 1"
    using l by (simp add: definition_args_def js_add_1)
  moreover have "offset (fl_location (definition_args path (position params)))
      = character (position params) + 1"
    using c by (simp add: definition_args_def js_add_1)
  moreover have "tspClient s \<noteq> None \<longrightarrow>
      tsp_sent (snd (lsp_definition uriToPath win params reply s))
        = tsp_sent s
            @ [Request Definition
                 (definition_args (uriToPath (td_uri params)) (position params))]"
    by (auto simp add: lsp_definition_sent)
  ultimately show ?thesis by blast
qed

theorem position_round_trip_witness:
  "toPosition (fl_location (definition_args ''/a.ts'' (position ex_position)))
     = \<lparr>line = 0, character = 7\<rparr>
   \<and> tsp_sent (snd (lsp_definition (drop 7) False ex_position (Inr \<lparr>body = None\<rparr>) ex_server))
     = [Request Definition (FileLocationArgs ''/a.ts'' \<lparr>loc_line = 1, offset = 8\<rparr>)]"
  using position_round_trip [of ex_position "''/a.ts''" ex_server "drop 7" False
      "Inr \<lparr>body = None\<rparr>"]
  by (simp add: ex_position_def safe_position_def definition_args_def ex_server_def
      initialize_def logger_log_def new_LspServer_def tsp_sent_def js_add_1)

section \<open>Re-analysis after open and change\<close>

lemma tsp_send_Some:
  "tspClient s = Some calls \<Longrightarrow> tsp_send c s = Inr (s\<lparr>tspClient := Some (calls @ [c])\<rparr>)"
  by (simp add: tsp_send_def)

lemma tsp_send_None: "tspClient s = None \<Longrightarrow> tsp_send c s = Inl TypeError"
  by (simp add: tsp_send_def)

lemma push_loop: "foldl (\<lambda>files uri. files @ [f uri]) acc uris = acc @ map f uris"
  by (induction uris arbitrary: acc) simp_all

lemma requestDiagnostics_Some:
  "tspClient s = Some calls \<Longrightarrow>
   requestDiagnostics uriToPath s =
     (Inr (), s\<lparr>tspClient := Some (calls @ [Request Geterr (GeterrArgs 0
        (map (uriToPath \<circ> fst) (sort_key snd (openedDocumentUris s))))])\<rparr>)"
  by (simp add: requestDiagnostics_def tsp_send_Some push_loop)

lemma requestDiagnostics_None:
  "tspClient s = None \<Longrightarrow> requestDiagnostics uriToPath s = (Inl TypeError, s)"
  by (simp add: requestDiagnostics_def tsp_send_None)

lemma map_set_new: "(k, v) \<in> set (map_set m k v)"
  by (induction m k v rule: map_set.induct) auto

lemma map_set_others: "e \<in> set m \<Longrightarrow> fst e \<noteq> k \<Longrightarrow> e \<in> set (map_set m k v)"
  by (induction m k v rule: map_set.induct) auto

lemma didOpen_Some:
  "tspClient s = Some calls \<Longrightarrow>
   didOpenTextDocument uriToPath now params s =
     (Inr (),
      s\<lparr>logged := logged s @ [Log ''onDidOpenTextDocument''],
        openedDocumentUris := map_set (openedDocumentUris s) (do_uri params) now,
        tspClient := Some (calls @
          [Notify Open (OpenArgs (uriToPath (do_uri params)) (do_text params)),
           Request Geterr (GeterrArgs 0 (map (uriToPath \<circ> fst)
             (sort_key snd (map_set (openedDocumentUris s) (do_uri params) now))))])\<rparr>)"
  by (simp add: didOpenTextDocument_def Let_def tsp_notify_def tsp_send_Some logger_log_def
      requestDiagnostics_Some)

lemma didOpen_None:
  "tspClient s = None \<Longrightarrow>
   didOpenTextDocument uriToPath now params s =
     (Inl TypeError, logger_log ''onDidOpenTextDocument'' s)"
  by (simp add: didOpenTextDocument_def Let_def tsp_notify_def tsp_send_None logger_log_def)

lemma didClose_Some:
  "tspClient s = Some calls \<Longrightarrow>
   didCloseTextDocument uriToPath params s =
     (Inr (),
      s\<lparr>logged := logged s @ [Log ''onDidCloseTextDocument''],
        openedDocumentUris := map_delete (openedDocumentUris s) (do_uri params),
        tspClient := Some (calls @ [Notify Close (FileArgs (uriToPath (do_uri params)))])\<rparr>)"
  by (simp add: didCloseTextDocument_def Let_def tsp_notify_def tsp_send_Some logger_log_def)

lemma didClose_None:
  "tspClient s = None \<Longrightarrow>
   didCloseTextDocument uriToPath params s =
     (Inl TypeError, logger_log ''onDidCloseTextDocument'' s)"
  by (simp add: didCloseTextDocument_def Let_def tsp_notify_def tsp_send_None logger_log_def)

lemma notifyChange_Some:
  "tspClient s = Some calls \<Longrightarrow>
   notifyChange uri path s c =
     (Inr (),
      s\<lparr>logged := logged s @ (if change_range c = None
                   then [Error (''Received non-incremental change for '' @ uri)] else []),
        tspClient := Some (calls @ [change_call path c])\<rparr>)"
  by (auto simp add: notifyChange_def change_call_def tsp_notify_def tsp_send_Some
      logger_error_def Let_def split: option.split)

lemma notifyChange_None:
  "tspClient s = None \<Longrightarrow> fst (notifyChange uri path s c) = Inl TypeError"
  by (simp add: notifyChange_def tsp_notify_def tsp_send_None logger_error_def Let_def
      split: option.split)

lemma notifyChanges_Some:
  "tspClient s = Some calls \<Longrightarrow>
   notifyChanges uri path cs s =
     (Inr (),
      s\<lparr>logged := logged s @ concat (map (\<lambda>c. if change_range c = None
                   then [Error (''Received non-incremental change for '' @ uri)] else []) cs),
        tspClient := Some (calls @ map (change_call path) cs)\<rparr>)"
proof (induction cs arbitrary: s calls)
  case Nil
  then show ?case by simp
next
  case (Cons c cs)
  let ?s1 = "s\<lparr>logged := logged s @ (if change_range c = None
                   then [Error (''Received non-incremental change for '' @ uri)] else []),
        tspClient := Some (calls @ [change_call path c])\<rparr>"
  have "tspClient ?s1 = Some (calls @ [change_call path c])" by simp
  from Cons.IH [OF this] Cons.prems show ?case
    by (simp add: notifyChange_Some)
qed

lemma notifyChanges_None:
  "tspClient s = None \<Longrightarrow> cs \<noteq> [] \<Longrightarrow> fst (notifyChanges uri path cs s) = Inl TypeError"
proof -
  assume s: "tspClient s = None" and "cs \<noteq> []"
  then obtain c rest where cs: "cs = c # rest" by (cases cs) auto
  obtain r s1 where r: "notifyChange uri path s c = (r, s1)" by (cases "notifyChange uri path s c")
  with notifyChange_None [OF s, of uri path c] have "r = Inl TypeError" by simp
  with r cs show ?thesis by simp
qed

lemma didChange_Some:
  "tspClient s = Some calls \<Longrightarrow>
   didChangeTextDocument uriToPath now params s =
     (Inr (),
      s\<lparr>logged := logged s @ Log ''onDidCloseTextDocument'' #
           concat (map (\<lambda>c. if change_range c = None
                   then [Error (''Received non-incremental change for '' @ dc_uri params)]
                   else []) (contentChanges params)),
        openedDocumentUris := map_set (openedDocumentUris s) (dc_uri params) now,
        tspClient := Some (calls @
          map (change_call (uriToPath (dc_uri params))) (contentChanges params) @
          [Request Geterr (GeterrArgs 0 (map (uriToPath \<circ> fst)
             (sort_key snd (map_set (openedDocumentUris s) (dc_uri params) now))))])\<rparr>)"
  by (simp add: didChangeTextDocument_def Let_def logger_log_def notifyChanges_Some
      requestDiagnostics_Some)

lemma didChange_None:
  "tspClient s = None \<Longrightarrow> fst (didChangeTextDocument uriToPath now params s) = Inl TypeError"
proof (cases "contentChanges params")
  case Nil
  assume "tspClient s = None"
  with Nil show ?thesis
    by (simp add: didChangeTextDocument_def Let_def logger_log_def requestDiagnostics_None)
next
  case (Cons c rest)
  assume s: "tspClient s = None"
  let ?s2 = "(logger_log ''onDidCloseTextDocument'' s)
      \<lparr>openedDocumentUris :=
         map_set (openedDocumentUris (logger_log ''onDidCloseTextDocument'' s)) (dc_uri params) now\<rparr>"
  have "tspClient ?s2 = None" using s by (simp add: logger_log_def)
  then have "fst (notifyChanges (dc_uri params) (uriToPath (dc_uri params))
      (contentChanges params) ?s2) = Inl TypeError"
    using Cons by (intro notifyChanges_None) simp_all
  then show ?thesis
    by (cases "notifyChanges (dc_uri params) (uriToPath (dc_uri params))
      (contentChanges params) ?s2") (simp add: didChangeTextDocument_def Let_def)
qed

lemma change_call_not_geterr: "filter is_geterr (map (change_call path) cs) = []"
  by (induction cs) (simp_all add: change_call_def split: option.split)

lemma ex_server_client: "tspClient ex_server = Some []"
  by (simp add: ex_server_def initialize_def logger_log_def new_LspServer_def)

lemma ex_two_open_state:
  "tspClient ex_two_open =
     Some [Notify Open (OpenArgs ''/a.ts'' ''let x = 1''),
           Request Geterr (GeterrArgs 0 [''/a.ts'']),
           Notify Open (OpenArgs ''/b.ts'' ''let x = 1''),
           Request Geterr (GeterrArgs 0 [''/a.ts'', ''/b.ts''])]"
  "openedDocumentUris ex_two_open = [(''file:///a.ts'', 1), (''file:///b.ts'', 2)]"
  by (simp_all add: ex_two_open_def didOpen_Some [OF ex_server_client] didOpen_Some ex_open_def)
    (simp_all add: ex_server_def initialize_def logger_log_def new_LspServer_def)

text \<open>
  Claim C4. After every document-open and every document-change operation (one that
  returns; it does on every server where \<open>initialize\<close> has run), exactly one
  re-analysis request is issued, as the last call of the operation: the calls before
  it are the open notification, or the notifications of the content changes, none of
  them a re-analysis request. The open-file map is the one from before with the
  opened or changed file set to the current time, and the file list of the request is
  the paths of the entries \<open>es\<close>, a rearrangement of all entries of that map (the
  touched file with its new timestamp, every other open file with the timestamp it
  had) in ascending order of last-touched timestamp.
\<close>

theorem reanalysis_after_open_and_change:
  "(fst (didOpenTextDocument uriToPath now po s) = Inr () \<longrightarrow>
      openedDocumentUris (snd (didOpenTextDocument uriToPath now po s))
        = map_set (openedDocumentUris s) (do_uri po) now
      \<and> (\<exists>es. tsp_sent (snd (didOpenTextDocument uriToPath now po s))
                = tsp_sent s
                    @ [Notify Open (OpenArgs (uriToPath (do_uri po)) (do_text po))]
                    @ [Request Geterr (GeterrArgs 0 (map (uriToPath \<circ> fst) es))]
            \<and> mset es = mset (openedDocumentUris (snd (didOpenTextDocument uriToPath now po s)))
            \<and> sorted (map snd es)
            \<and> (do_uri po, now) \<in> set es
            \<and> {e \<in> set (openedDocumentUris s). fst e \<noteq> do_uri po} \<subseteq> set es))
   \<and> (fst (didChangeTextDocument uriToPath now pc s) = Inr () \<longrightarrow>
      openedDocumentUris (snd (didChangeTextDocument uriToPath now pc s))
        = map_set (openedDocumentUris s) (dc_uri pc) now
      \<and> filter is_geterr (map (change_call (uriToPath (dc_uri pc))) (contentChanges pc)) = []
      \<and> (\<exists>es. tsp_sent (snd (didChangeTextDocument uriToPath now pc s))
                = tsp_sent s
                    @ map (change_call (uriToPath (dc_uri pc))) (contentChanges pc)
                    @ [Request Geterr (GeterrArgs 0 (map (uriToPath \<circ> fst) es))]
            \<and> mset es = mset (openedDocumentUris (snd (didChangeTextDocument uriToPath now pc s)))
            \<and> sorted (map snd es)
            \<and> (dc_uri pc, now) \<in> set es
            \<and> {e \<in> set (openedDocumentUris s). fst e \<noteq> dc_uri pc} \<subseteq> set es))
   \<and> (tspClient s \<noteq> None \<longrightarrow>
        fst (didOpenTextDocument uriToPath now po s) = Inr ()
        \<and> fst (didChangeTextDocument uriToPath now pc s) = Inr ())"
proof (intro conjI impI)
  assume "fst (didOpenTextDocument uriToPath now po s) = Inr ()"
  then obtain calls where c: "tspClient s = Some calls"
    by (cases "tspClient s") (simp_all add: didOpen_None)
  let ?m = "map_set (openedDocumentUris s) (do_uri po) now"
  show "openedDocumentUris (snd (didOpenTextDocument uriToPath now po s)) = ?m"
    by (simp add: didOpen_Some [OF c])
  have "tsp_sent (snd (didOpenTextDocument uriToPath now po s))
      = tsp_sent s @ [Notify Open (OpenArgs (uriToPath (do_uri po)) (do_text po))]
          @ [Request Geterr (GeterrArgs 0 (map (uriToPath \<circ> fst) (sort_key snd ?m)))]"
    by (simp add: didOpen_Some [OF c] tsp_sent_def c)
  moreover have "mset (sort_key snd ?m)
      = mset (openedDocumentUris (snd (didOpenTextDocument uriToPath now po s)))"
    by (simp add: didOpen_Some [OF c])
  moreover have "sorted (map snd (sort_key snd ?m))" by simp
  moreover have "(do_uri po, now) \<in> set (sort_key snd ?m)" by (simp add: map_set_new)
  moreover have "{e \<in> set (openedDocumentUris s). fst e \<noteq> do_uri po} \<subseteq> set (sort_key snd ?m)"
    by (auto simp add: map_set_others)
  ultimately show "\<exists>es. tsp_sent (snd (didOpenTextDocument uriToPath now po s))
                = tsp_sent s
                    @ [Notify Open (OpenArgs (uriToPath (do_uri po)) (do_text po))]
                    @ [Request Geterr (GeterrArgs 0 (map (uriToPath \<circ> fst) es))]
            \<and> mset es = mset (openedDocumentUris (snd (didOpenTextDocument uriToPath now po s)))
            \<and> sorted (map snd es)
            \<and> (do_uri po, now) \<in> set es
            \<and> {e \<in> set (openedDocumentUris s). fst e \<noteq> do_uri po} \<subseteq> set es"
    by blast
next
  assume "fst (didChangeTextDocument uriToPath now pc s) = Inr ()"
  then obtain calls where c: "tspClient s = Some calls"
    by (cases "tspClient s") (simp_all add: didChange_None)
  let ?m = "map_set (openedDocumentUris s) (dc_uri pc) now"
  show "openedDocumentUris (snd (didChangeTextDocument uriToPath now pc s)) = ?m"
    by (simp add: didChange_Some [OF c])
  show "filter is_geterr (map (change_call (uriToPath (dc_uri pc))) (contentChanges pc)) = []"
    by (rule change_call_not_geterr)
  have "tsp_sent (snd (didChangeTextDocument uriToPath now pc s))
      = tsp_sent s @ map (change_call (uriToPath (dc_uri pc))) (contentChanges pc)
          @ [Request Geterr (GeterrArgs 0 (map (uriToPath \<circ> fst) (sort_key snd ?m)))]"
    by (simp add: didChange_Some [OF c] tsp_sent_def c)
  moreover have "mset (sort_key snd ?m)
      = mset (openedDocumentUris (snd (didChangeTextDocument uriToPath now pc s)))"
    by (simp add: didChange_Some [OF c])
  moreover have "sorted (map snd (sort_key snd ?m))" by simp
  moreover have "(dc_uri pc, now) \<in> set (sort_key snd ?m)" by (simp add: map_set_new)
  moreover have "{e \<in> set (openedDocumentUris s). fst e \<noteq> dc_uri pc} \<subseteq> set (sort_key snd ?m)"
    by (auto simp add: map_set_others)
  ultimately show "\<exists>es. tsp_sent (snd (didChangeTextDocument uriToPath now pc s))
                = tsp_sent s
                    @ map (change_call (uriToPath (dc_uri pc))) (contentChanges pc)
                    @ [Request Geterr (GeterrArgs 0 (map (uriToPath \<circ> fst) es))]
            \<and> mset es = mset (openedDocumentUris (snd (didChangeTextDocument uriToPath now pc s)))
            \<and> sorted (map snd es)
            \<and> (dc_uri pc, now) \<in> set es
            \<and> {e \<in> set (openedDocumentUris s). fst e \<noteq> dc_uri pc} \<subseteq> set es"
    by blast
next
  assume "tspClient s \<noteq> None"
  then obtain calls where c: "tspClient s = Some calls" by auto
  show "fst (didOpenTextDocument uriToPath now po s) = Inr ()"
    by (simp add: didOpen_Some [OF c])
next
  assume "tspClient s \<noteq> None"
  then obtain calls where c: "tspClient s = Some calls" by auto
  show "fst (didChangeTextDocument uriToPath now pc s) = Inr ()"
    by (simp add: didChange_Some [OF c])
qed

theorem reanalysis_after_open_and_change_witness:
  "tsp_sent (snd (didOpenTextDocument (drop 7) 0 (ex_open ''file:///c.ts'') ex_two_open))
     = tsp_sent ex_two_open
         @ [Notify Open (OpenArgs ''/c.ts'' ''let x = 1''),
            Request Geterr (GeterrArgs 0 [''/c.ts'', ''/a.ts'', ''/b.ts''])]
   \<and> tsp_sent (snd (didChangeTextDocument (drop 7) 5 ex_change ex_two_open))
     = tsp_sent ex_two_open
         @ [Notify Open (OpenArgs ''/a.ts'' ''x''),
            Notify Change (ChangeArgs ''/a.ts'' \<lparr>loc_line = 1, offset = 3\<rparr>
              \<lparr>loc_line = 2, offset = 1\<rparr> ''y''),
            Request Geterr (GeterrArgs 0 [''/b.ts'', ''/a.ts''])]"
  using reanalysis_after_open_and_change [of "drop 7" 0 "ex_open ''file:///c.ts''" ex_two_open
      ex_change]
    reanalysis_after_open_and_change [of "drop 7" 5 "ex_open ''file:///c.ts''" ex_two_open
      ex_change]
  by (simp add: didOpen_Some [OF ex_two_open_state(1)] didChange_Some [OF ex_two_open_state(1)]
      ex_two_open_state tsp_sent_def ex_open_def ex_change_def change_call_def js_add_1)

section \<open>Content changes\<close>

lemma change_call_safe:
  "change_range c = Some r \<Longrightarrow> safe_position (range_start r) \<Longrightarrow>
   safe_position (range_end r) \<Longrightarrow>
   change_call path c =
     Notify Change
       (ChangeArgs path
          \<lparr>loc_line = line (range_start r) + 1, offset = character (range_start r) + 1\<rparr>
          \<lparr>loc_line = line (range_end r) + 1, offset = character (range_end r) + 1\<rparr>
          (change_text c))"
  by (simp add: change_call_def safe_position_def js_add_1)

text \<open>
  Claim C7 says that a content change without a range is sent as a full-text
  replacement with a warning logged, that the operation does not fail, and that a
  change with a range is sent as an incremental edit with one-based coordinates. The
  source logs through \<open>logger.error\<close>: on the example server the change without a
  range leaves an error entry and no warning. Before \<open>initialize\<close> there is no
  subprocess client and the operation raises a TypeError. And 1 is added in double
  arithmetic: a change at line \<open>2 ^ 53\<close> is sent with line \<open>2 ^ 53\<close>.
\<close>

theorem change_logs_error_not_warning:
  "logged (snd (didChangeTextDocument (drop 7) 5 ex_change ex_server))
     = logged ex_server
         @ [Log ''onDidCloseTextDocument'',
            Error ''Received non-incremental change for file:///a.ts'']
   \<and> filter is_warning (logged (snd (didChangeTextDocument (drop 7) 5 ex_change ex_server))) = []
   \<and> fst (didChangeTextDocument (drop 7) 5 ex_change new_LspServer) = Inl TypeError
   \<and> tsp_sent (snd (didChangeTextDocument (drop 7) 5 ex_far_change ex_server)) ! 0
       = Notify Change (ChangeArgs ''/a.ts''
           \<lparr>loc_line = 9007199254740992, offset = 1\<rparr>
           \<lparr>loc_line = 9007199254740992, offset = 1\<rparr> ''y'')"
proof -
  have "tspClient new_LspServer = None" by (simp add: new_LspServer_def)
  then have "fst (didChangeTextDocument (drop 7) 5 ex_change new_LspServer) = Inl TypeError"
    by (rule didChange_None)
  moreover have "tsp_sent (snd (didChangeTextDocument (drop 7) 5 ex_far_change ex_server)) ! 0
       = Notify Change (ChangeArgs ''/a.ts''
           \<lparr>loc_line = 9007199254740992, offset = 1\<rparr>
           \<lparr>loc_line = 9007199254740992, offset = 1\<rparr> ''y'')"
    by (simp add: didChange_Some [OF ex_server_client] tsp_sent_def ex_far_change_def
        change_call_def js_add_2_53 js_add_1)
  moreover have "logged (snd (didChangeTextDocument (drop 7) 5 ex_change ex_server))
     = logged ex_server
         @ [Log ''onDidCloseTextDocument'',
            Error ''Received non-incremental change for file:///a.ts'']"
    by (simp add: didChange_Some [OF ex_server_client] ex_change_def)
  moreover have "filter is_warning (logged ex_server) = []"
    by (simp add: ex_server_def initialize_def logger_log_def new_LspServer_def)
  ultimately show ?thesis by simp
qed

text \<open>
  Claim C7, amended. For every document-change operation on a server where
  \<open>initialize\<close> has run, and every content change in it (the \<open>i\<close>-th, say): if the
  change lacks a range, the \<open>i\<close>-th call of the operation is an \<open>open\<close> notification
  with the full content, and a message is logged at error level (through
  \<open>logger.error\<close>); if the change has a range, the \<open>i\<close>-th call is an incremental
  \<open>change\<close> notification whose coordinates are the editor's with 1 added in double
  arithmetic, which are the one-based coordinates when the editor's are non-negative
  integers below \<open>2 ^ 53\<close>. The operation does not fail: it returns after one call per
  change and the re-analysis request.
\<close>

theorem change_notifications:
  assumes "tspClient s \<noteq> None" and "i < length (contentChanges params)"
  shows "fst (didChangeTextDocument uriToPath now params s) = Inr ()
       \<and> (change_range (contentChanges params ! i) = None \<longrightarrow>
            tsp_sent (snd (didChangeTextDocument uriToPath now params s))
                ! (length (tsp_sent s) + i)
              = Notify Open (OpenArgs (uriToPath (dc_uri params))
                  (change_text (contentChanges params ! i)))
            \<and> Error (''Received non-incremental change for '' @ dc_uri params)
                 \<in> set (drop (length (logged s))
                     (logged (snd (didChangeTextDocument uriToPath now params s)))))
       \<and> (\<forall>r. change_range (contentChanges params ! i) = Some r \<longrightarrow>
            tsp_sent (snd (didChangeTextDocument uriToPath now params s))
                ! (length (tsp_sent s) + i)
              = Notify Change
                  (ChangeArgs (uriToPath (dc_uri params))
                     \<lparr>loc_line = js_add (line (range_start r)) 1,
                      offset = js_add (character (range_start r)) 1\<rparr>
                     \<lparr>loc_line = js_add (line (range_end r)) 1,
                      offset = js_add (character (range_end r)) 1\<rparr>
                     (change_text (contentChanges params ! i)))
            \<and> (safe_position (range_start r) \<and> safe_position (range_end r) \<longrightarrow>
                 tsp_sent (snd (didChangeTextDocument uriToPath now params s))
                     ! (length (tsp_sent s) + i)
                   = Notify Change
                       (ChangeArgs (uriToPath (dc_uri params))
                          \<lparr>loc_line = line (range_start r) + 1,
                           offset = character (range_start r) + 1\<rparr>
                          \<lparr>loc_line = line (range_end r) + 1,
                           offset = character (range_end r) + 1\<rparr>
                          (change_text (contentChanges params ! i)))))
       \<and> length (tsp_sent (snd (didChangeTextDocument uriToPath now params s)))
           = length (tsp_sent s) + length (contentChanges params) + 1"
proof -
  from assms(1) obtain calls where c: "tspClient s = Some calls" by auto
  let ?cs = "contentChanges params"
  let ?s' = "snd (didChangeTextDocument uriToPath now params s)"
  have ret: "fst (didChangeTextDocument uriToPath now params s) = Inr ()"
    by (simp add: didChange_Some [OF c])
  have sent: "tsp_sent ?s' = tsp_sent s @ map (change_call (uriToPath (dc_uri params))) ?cs
      @ [Request Geterr (GeterrArgs 0 (map (uriToPath \<circ> fst)
           (sort_key snd (map_set (openedDocumentUris s) (dc_uri params) now))))]"
    by (simp add: didChange_Some [OF c] tsp_sent_def c)
  have nth: "tsp_sent ?s' ! (length (tsp_sent s) + i)
      = change_call (uriToPath (dc_uri params)) (?cs ! i)"
    using assms(2) by (simp add: sent nth_append)
  have len: "length (tsp_sent ?s') = length (tsp_sent s) + length ?cs + 1"
    by (simp add: sent)
  have log: "Error (''Received non-incremental change for '' @ dc_uri params)
        \<in> set (drop (length (logged s)) (logged ?s'))"
    if "change_range (?cs ! i) = None"
  proof -
    have "?cs ! i \<in> set ?cs" using assms(2) by simp
    with that show ?thesis
      by (auto simp add: didChange_Some [OF c])
  qed
  have none: "change_range (?cs ! i) = None \<longrightarrow>
      tsp_sent ?s' ! (length (tsp_sent s) + i)
        = Notify Open (OpenArgs (uriToPath (dc_uri params)) (change_text (?cs ! i)))
      \<and> Error (''Received non-incremental change for '' @ dc_uri params)
           \<in> set (drop (length (logged s)) (logged ?s'))"
    using log by (simp add: nth change_call_def)
  have some: "\<forall>r. change_range (?cs ! i) = Some r \<longrightarrow>
      tsp_sent ?s' ! (length (tsp_sent s) + i)
        = Notify Change
            (ChangeArgs (uriToPath (dc_uri params))
               \<lparr>loc_line = js_add (line (range_start r)) 1,
                offset = js_add (character (range_start r)) 1\<rparr>
               \<lparr>loc_line = js_add (line (range_end r)) 1,
                offset = js_add (character (range_end r)) 1\<rparr>
               (change_text (?cs ! i)))
      \<and> (safe_position (range_start r) \<and> safe_position (range_end r) \<longrightarrow>
           tsp_sent ?s' ! (length (tsp_sent s) + i)
             = Notify Change
                 (ChangeArgs (uriToPath (dc_uri params))
                    \<lparr>loc_line = line (range_start r) + 1,
                     offset = character (range_start r) + 1\<rparr>
                    \<lparr>loc_line = line (range_end r) + 1,
                     offset = character (range_end r) + 1\<rparr>
                    (change_text (?cs ! i))))"
    by (auto simp add: nth change_call_safe) (simp add: change_call_def)
  from ret none some len show ?thesis by blast
qed

theorem change_notifications_witness:
  "fst (didChangeTextDocument (drop 7) 5 ex_change ex_server) = Inr ()
   \<and> tsp_sent (snd (didChangeTextDocument (drop 7) 5 ex_change ex_server)) ! 0
     = Notify Open (OpenArgs ''/a.ts'' ''x'')
   \<and> Error ''Received non-incremental change for file:///a.ts''
       \<in> set (logged (snd (didChangeTextDocument (drop 7) 5 ex_change ex_server)))
   \<and> tsp_sent (snd (didChangeTextDocument (drop 7) 5 ex_change ex_server)) ! 1
     = Notify Change (ChangeArgs ''/a.ts'' \<lparr>loc_line = 1, offset = 3\<rparr>
         \<lparr>loc_line = 2, offset = 1\<rparr> ''y'')"
  using change_notifications [of ex_server 0 ex_change "drop 7" 5]
    change_notifications [of ex_server 1 ex_change "drop 7" 5]
  by (simp add: ex_change_def ex_server_client tsp_sent_def safe_position_def
      didChange_Some [OF ex_server_client] change_call_def js_add_1)

section \<open>Diagnostic events\<close>

lemma ex_event_sel:
  "event (ex_event kind file ds) = kind"
  "ev_file (ev_body (ex_event kind file ds)) = file"
  "ev_diagnostics (ev_body (ex_event kind file ds)) = ds"
  by (simp_all add: ex_event_def)

lemma onTsEvent_syntax:
  "event ev = SyntaxDiag \<Longrightarrow>
   published (onTsEvent ev s) = published s @
     [\<lparr>pub_file = ev_file (ev_body ev),
       pub_diagnostics = ev_diagnostics (ev_body ev)
         @ (case semantic (bucket_of (diagnosticQueue s) (ev_file (ev_body ev))) of
              None \<Rightarrow> [] | Some ds \<Rightarrow> ds)\<rparr>]"
  by (simp add: onTsEvent_def addSyntacticDiagnostic_def Let_def bucket_view_def)

lemma onTsEvent_semantic:
  "event ev = SementicDiag \<Longrightarrow>
   published (onTsEvent ev s) = published s @
     [\<lparr>pub_file = ev_file (ev_body ev),
       pub_diagnostics =
         (case syntactic (bucket_of (diagnosticQueue s) (ev_file (ev_body ev))) of
              None \<Rightarrow> [] | Some ds \<Rightarrow> ds) @ ev_diagnostics (ev_body ev)\<rparr>]"
  by (simp add: onTsEvent_def addSemanticDiagnostic_def Let_def bucket_view_def)

lemma onTsEvent_syntax_queue:
  "event ev = SyntaxDiag \<Longrightarrow>
   diagnosticQueue (onTsEvent ev s) =
     (diagnosticQueue s)(ev_file (ev_body ev) \<mapsto>
        (bucket_of (diagnosticQueue s) (ev_file (ev_body ev)))
          \<lparr>syntactic := Some (ev_diagnostics (ev_body ev))\<rparr>)"
  by (simp add: onTsEvent_def addSyntacticDiagnostic_def Let_def)

lemma onTsEvent_other:
  "tspClient (onTsEvent ev s) = tspClient s"
  "openedDocumentUris (onTsEvent ev s) = openedDocumentUris s"
  by (simp_all add: onTsEvent_def logger_log_def split: prod.splits)

lemma onTsEvent_same_queue:
  "diagnosticQueue s = diagnosticQueue s' \<Longrightarrow> published s = published s' \<Longrightarrow>
   diagnosticQueue (onTsEvent ev s) = diagnosticQueue (onTsEvent ev s')
   \<and> published (onTsEvent ev s) = published (onTsEvent ev s')"
  by (simp add: onTsEvent_def logger_log_def split: prod.splits)

text \<open>
  Claim C8. For every file with no prior diagnostics (no bucket) that receives a
  syntactic diagnostic set \<open>S1\<close> followed by a semantic diagnostic set \<open>M1\<close>, the
  publish callback is invoked exactly twice for that file: first with \<open>S1\<close> alone,
  then with the union of \<open>S1\<close> and \<open>M1\<close> (the list \<open>S1 @ M1\<close>).
\<close>

theorem syntactic_then_semantic:
  assumes "diagnosticQueue s f = None"
    and "event e1 = SyntaxDiag" and "ev_body e1 = \<lparr>ev_file = f, ev_diagnostics = S1\<rparr>"
    and "event e2 = SementicDiag" and "ev_body e2 = \<lparr>ev_file = f, ev_diagnostics = M1\<rparr>"
  shows "published (onTsEvent e1 s) = published s @ [\<lparr>pub_file = f, pub_diagnostics = S1\<rparr>]
    \<and> published (onTsEvent e2 (onTsEvent e1 s)) =
        published s @ [\<lparr>pub_file = f, pub_diagnostics = S1\<rparr>,
                       \<lparr>pub_file = f, pub_diagnostics = S1 @ M1\<rparr>]
    \<and> set (S1 @ M1) = set S1 \<union> set M1"
  using assms
  by (simp add: onTsEvent_syntax onTsEvent_semantic onTsEvent_syntax_queue bucket_of_def)

theorem syntactic_then_semantic_witness:
  "published (onTsEvent (ex_event SementicDiag ''/a.ts'' [ex_diag ''semantic''])
      (onTsEvent (ex_event SyntaxDiag ''/a.ts'' [ex_diag ''syntax'']) ex_server))
     = [\<lparr>pub_file = ''/a.ts'', pub_diagnostics = [ex_diag ''syntax'']\<rparr>,
        \<lparr>pub_file = ''/a.ts'', pub_diagnostics = [ex_diag ''syntax'', ex_diag ''semantic'']\<rparr>]"
  using syntactic_then_semantic [of ex_server "''/a.ts''"
      "ex_event SyntaxDiag ''/a.ts'' [ex_diag ''syntax'']" "[ex_diag ''syntax'']"
      "ex_event SementicDiag ''/a.ts'' [ex_diag ''semantic'']" "[ex_diag ''semantic'']"]
  by (simp add: ex_event_def ex_server_def initialize_def logger_log_def new_LspServer_def)

section \<open>Closing a document\<close>

lemma ex_reported_state:
  "tspClient ex_reported =
     Some [Notify Open (OpenArgs ''/a.ts'' ''let x = 1''),
           Request Geterr (GeterrArgs 0 [''/a.ts''])]"
  "openedDocumentUris ex_reported = [(''file:///a.ts'', 1)]"
  "diagnosticQueue ex_reported ''/a.ts''
     = Some \<lparr>syntactic = Some [ex_diag ''syntax''], semantic = None\<rparr>"
  "published ex_reported = [\<lparr>pub_file = ''/a.ts'', pub_diagnostics = [ex_diag ''syntax'']\<rparr>]"
  by (simp_all add: ex_reported_def onTsEvent_other onTsEvent_syntax onTsEvent_syntax_queue
      ex_event_sel didOpen_Some [OF ex_server_client] bucket_of_def ex_open_def)
    (simp_all add: ex_server_def initialize_def logger_log_def new_LspServer_def)

text \<open>
  Claim C1 says that after the document-close operation for a file its diagnostic
  bucket is discarded and a diagnostic event delivered afterwards produces no publish
  call. \<open>didCloseTextDocument\<close> never touches the diagnostic queue, and \<open>onTsEvent\<close>
  hands every diagnostic event to the queue whether or not the file is open. Here
  a.ts has been opened and has received syntactic diagnostics; it is closed: its
  bucket is still there, and the semantic event that follows is published, together
  with the syntactic diagnostics from before the close.
\<close>

theorem publish_after_close:
  "fst (didCloseTextDocument (drop 7) (ex_open ''file:///a.ts'') ex_reported) = Inr ()
   \<and> diagnosticQueue
        (snd (didCloseTextDocument (drop 7) (ex_open ''file:///a.ts'') ex_reported)) ''/a.ts''
     = Some \<lparr>syntactic = Some [ex_diag ''syntax''], semantic = None\<rparr>
   \<and> published (onTsEvent (ex_event SementicDiag ''/a.ts'' [ex_diag ''semantic''])
       (snd (didCloseTextDocument (drop 7) (ex_open ''file:///a.ts'') ex_reported)))
     = published (snd (didCloseTextDocument (drop 7) (ex_open ''file:///a.ts'') ex_reported))
       @ [\<lparr>pub_file = ''/a.ts'', pub_diagnostics = [ex_diag ''syntax'', ex_diag ''semantic'']\<rparr>]"
  by (simp add: didClose_Some [OF ex_reported_state(1)] ex_reported_state onTsEvent_semantic
      bucket_of_def ex_event_sel)

text \<open>
  Claim C1, amended. After the document-close operation for a file is processed (it
  has returned), the file is removed from the open-file map and a close notification
  has been sent to the subprocess, but the diagnostic queue and the publications are
  left as they were (the file's bucket is kept), and every event delivered afterwards
  is handled as before the close: it updates the queue and publishes exactly as it
  would have if the file had not been closed.
\<close>

theorem close_keeps_bucket:
  assumes "fst (didCloseTextDocument uriToPath params s) = Inr ()"
  shows "openedDocumentUris (snd (didCloseTextDocument uriToPath params s))
      = map_delete (openedDocumentUris s) (do_uri params)
   \<and> tsp_sent (snd (didCloseTextDocument uriToPath params s))
      = tsp_sent s @ [Notify Close (FileArgs (uriToPath (do_uri params)))]
   \<and> diagnosticQueue (snd (didCloseTextDocument uriToPath params s)) = diagnosticQueue s
   \<and> published (snd (didCloseTextDocument uriToPath params s)) = published s
   \<and> diagnosticQueue (onTsEvent ev (snd (didCloseTextDocument uriToPath params s)))
      = diagnosticQueue (onTsEvent ev s)
   \<and> published (onTsEvent ev (snd (didCloseTextDocument uriToPath params s)))
      = published (onTsEvent ev s)"
proof -
  from assms obtain calls where c: "tspClient s = Some calls"
    by (cases "tspClient s") (simp_all add: didClose_None)
  let ?s' = "snd (didCloseTextDocument uriToPath params s)"
  have q: "diagnosticQueue ?s' = diagnosticQueue s" and p: "published ?s' = published s"
    by (simp_all add: didClose_Some [OF c])
  have "openedDocumentUris ?s' = map_delete (openedDocumentUris s) (do_uri params)"
    by (simp add: didClose_Some [OF c])
  moreover have "tsp_sent ?s' = tsp_sent s @ [Notify Close (FileArgs (uriToPath (do_uri params)))]"
    by (simp add: didClose_Some [OF c] tsp_sent_def c)
  ultimately show ?thesis
    using q p onTsEvent_same_queue [OF q p, of ev] by simp
qed

theorem close_keeps_bucket_witness:
  "openedDocumentUris (snd (didCloseTextDocument (drop 7) (ex_open ''file:///a.ts'') ex_reported))
     = []
   \<and> diagnosticQueue
        (snd (didCloseTextDocument (drop 7) (ex_open ''file:///a.ts'') ex_reported)) ''/a.ts''
     = Some \<lparr>syntactic = Some [ex_diag ''syntax''], semantic = None\<rparr>
   \<and> published (onTsEvent (ex_event SementicDiag ''/a.ts'' [ex_diag ''semantic''])
       (snd (didCloseTextDocument (drop 7) (ex_open ''file:///a.ts'') ex_reported)))
     = [\<lparr>pub_file = ''/a.ts'', pub_diagnostics = [ex_diag ''syntax'']\<rparr>,
        \<lparr>pub_file = ''/a.ts'', pub_diagnostics = [ex_diag ''syntax'', ex_diag ''semantic'']\<rparr>]"
proof -
  have ret: "fst (didCloseTextDocument (drop 7) (ex_open ''file:///a.ts'') ex_reported) = Inr ()"
    by (simp add: didClose_Some [OF ex_reported_state(1)])
  from close_keeps_bucket [OF ret, of "ex_event SementicDiag ''/a.ts'' [ex_diag ''semantic'']"]
  show ?thesis
    by (simp add: ex_reported_state map_delete_def ex_open_def onTsEvent_semantic ex_event_sel
        bucket_of_def)
qed

section \<open>Document symbols\<close>

lemma created_is_spec_symbol:
  "espans = start # more_spans \<Longrightarrow>
   SymbolInformation_create etext (toSymbolKind ekind)
      \<lparr>range_start = toPosition (span_start start),
       range_end = toPosition (span_end (last espans))\<rparr> uri parent
     = spec_symbol uri (parent, NavigationTree etext ekind espans echildren)"
  by (simp add: SymbolInformation_create_def spec_symbol_def claimed_symbol_def
      spec_container_def split: option.split)

lemma collect_flatten:
  "collectSymbol uri n parent acc
     = acc @ map (spec_symbol uri) (filter has_spans (spec_nodes parent n))"
  "collectChildren uri cs t acc
     = acc @ map (spec_symbol uri)
         (filter has_spans (concat (map (spec_nodes (Some t)) cs)))"
proof (induction uri n parent acc and uri cs t acc
    rule: collectSymbol_collectChildren.induct)
  case (1 uri etext ekind espans echildren parent result)
  show ?case
  proof (cases espans)
    case Nil
    then show ?thesis
      using "1.IH" by (cases echildren) (simp_all add: has_spans_def)
  next
    case (Cons start more_spans)
    have "SymbolInformation_create etext (toSymbolKind ekind)
        \<lparr>range_start = toPosition (span_start start),
         range_end = toPosition (span_end (last espans))\<rparr> uri parent
      = spec_symbol uri (parent, NavigationTree etext ekind espans echildren)"
      using Cons by (rule created_is_spec_symbol)
    with Cons show ?thesis
      using "1.IH" by (cases echildren) (simp_all add: has_spans_def)
  qed
next
  case (2 uri etext result)
  show ?case by simp
next
  case (3 uri child rest etext result)
  then show ?case by simp
qed

lemma spec_symbol_named: "p \<noteq> Some [] \<Longrightarrow> spec_symbol uri (p, n) = claimed_symbol uri (p, n)"
  by (cases p) (simp_all add: spec_symbol_def claimed_symbol_def spec_container_def)

lemma ex_symbols:
  "fst (documentSymbol (drop 7) ex_position (Inr \<lparr>body = Some ex_tree\<rparr>) ex_server)
     = Inr [ex_symbol ''A'' KClass 0 8 (Some ''<global>''), ex_symbol ''m'' KMethod 1 1 (Some ''A''),
            ex_symbol ''f'' KFunction 4 5 (Some ''B'')]"
  by (simp add: documentSymbol_def Let_def ex_tree_def ex_spanless_def ex_leaf_def ex_span_def
      ex_position_def ex_symbol_def toSymbolKind_def symbolKindsMapping_def toPosition_def
      SymbolInformation_create_def js_sub_1)

lemma ex_unnamed_symbols:
  "fst (documentSymbol (drop 7) ex_position (Inr \<lparr>body = Some ex_unnamed\<rparr>) ex_server)
     = Inr [ex_symbol ''f'' KFunction 4 5 None]"
  by (simp add: documentSymbol_def Let_def ex_unnamed_def ex_leaf_def ex_span_def
      ex_position_def ex_symbol_def toSymbolKind_def symbolKindsMapping_def toPosition_def
      SymbolInformation_create_def js_sub_1)

lemma ex_leaf_claimed:
  "claimed_symbol ''file:///a.ts'' (Some [], ex_leaf) = ex_symbol ''f'' KFunction 4 5 (Some [])"
  by (simp add: claimed_symbol_def ex_leaf_def ex_span_def ex_symbol_def toSymbolKind_def
      symbolKindsMapping_def toPosition_def js_sub_1)

lemma ex_unnamed_claimed:
  "claimed_documentSymbol ''file:///a.ts'' ex_unnamed = [ex_symbol ''f'' KFunction 4 5 (Some [])]"
  by (simp add: claimed_documentSymbol_def claimed_symbol_def has_spans_def ex_unnamed_def
      ex_leaf_def ex_span_def ex_symbol_def toSymbolKind_def symbolKindsMapping_def
      toPosition_def js_sub_1)

text \<open>
  Claim C5 says that each child symbol's container name is its parent node's display
  text. \<open>lsp.SymbolInformation.create\<close> stores a container name only when it is not
  empty: under a parent whose display text is the empty string the child's symbol has
  no container name, where the claim has the empty string.
\<close>

theorem unnamed_parent_gives_no_container:
  "fst (documentSymbol (drop 7) ex_position (Inr \<lparr>body = Some ex_unnamed\<rparr>) ex_server)
     = Inr [ex_symbol ''f'' KFunction 4 5 None]
   \<and> claimed_documentSymbol ''file:///a.ts'' ex_unnamed = [ex_symbol ''f'' KFunction 4 5 (Some [])]"
  by (simp add: ex_unnamed_symbols ex_unnamed_claimed)

text \<open>
  Claim C5, amended. For every hierarchical navigation-tree response,
  \<open>documentSymbol\<close> returns the flat sequence \<open>spec_documentSymbol\<close>: the nodes in
  document order, without those that have no spans, each as a symbol whose range runs
  from the start of the node's first span to the end of its last span and whose
  container name is the display text of the node's parent when that text is not empty,
  and absent when it is empty or the node is the root. On a tree in which no node with
  children has an empty display text this is the sequence of the claim as it stands.
\<close>

theorem documentSymbol_flattens:
  "fst (documentSymbol uriToPath params (Inr \<lparr>body = Some tree\<rparr>) s)
     = Inr (spec_documentSymbol (td_uri params) tree)
   \<and> (named_parents tree \<longrightarrow>
        spec_documentSymbol (td_uri params) tree = claimed_documentSymbol (td_uri params) tree)"
proof -
  have "spec_documentSymbol (td_uri params) tree = claimed_documentSymbol (td_uri params) tree"
    if "named_parents tree"
  proof -
    have "spec_symbol (td_uri params) pn = claimed_symbol (td_uri params) pn"
      if "pn \<in> set (spec_nodes None tree)" for pn
    proof -
      from \<open>named_parents tree\<close> that have "fst pn \<noteq> Some []"
        unfolding named_parents_def by (metis image_eqI)
      then show ?thesis
        using spec_symbol_named [of "fst pn" "td_uri params" "snd pn"] by simp
    qed
    then show ?thesis
      by (simp add: spec_documentSymbol_def claimed_documentSymbol_def)
  qed
  then show ?thesis
    by (simp add: documentSymbol_def Let_def spec_documentSymbol_def collect_flatten(1))
qed

theorem documentSymbol_flattens_witness:
  "claimed_documentSymbol ''file:///a.ts'' ex_tree
     = [ex_symbol ''A'' KClass 0 8 (Some ''<global>''), ex_symbol ''m'' KMethod 1 1 (Some ''A''),
        ex_symbol ''f'' KFunction 4 5 (Some ''B'')]
   \<and> spec_documentSymbol ''file:///a.ts'' ex_unnamed = [ex_symbol ''f'' KFunction 4 5 None]"
proof -
  have "named_parents ex_tree"
    by (simp add: named_parents_def ex_tree_def ex_spanless_def ex_leaf_def)
  with documentSymbol_flattens [of "drop 7" ex_position ex_tree ex_server] ex_symbols
  have "claimed_documentSymbol ''file:///a.ts'' ex_tree
     = [ex_symbol ''A'' KClass 0 8 (Some ''<global>''), ex_symbol ''m'' KMethod 1 1 (Some ''A''),
        ex_symbol ''f'' KFunction 4 5 (Some ''B'')]"
    by (simp add: ex_position_def)
  moreover from documentSymbol_flattens [of "drop 7" ex_position ex_unnamed ex_server]
    ex_unnamed_symbols
  have "spec_documentSymbol ''file:///a.ts'' ex_unnamed = [ex_symbol ''f'' KFunction 4 5 None]"
    by (simp add: ex_position_def)
  ultimately show ?thesis by simp
qed

lemma spec_nodes_child:
  "childItems n = Some cs \<Longrightarrow> c \<in> set cs \<Longrightarrow>
     set (spec_nodes (Some (nav_text n)) c) \<subseteq> set (spec_nodes p n)"
  by (cases n) auto

lemma spec_nodes_self: "(p, n) \<in> set (spec_nodes p n)"
  by (cases n) simp

lemma spec_nodes_descend:
  "(p, n) \<in> set (spec_nodes q root) \<Longrightarrow> set (spec_nodes p n) \<subseteq> set (spec_nodes q root)"
proof (induction root arbitrary: q)
  case (NavigationTree t k sp ch)
  show ?case
  proof (cases "(p, n) = (q, NavigationTree t k sp ch)")
    case True
    then show ?thesis by simp
  next
    case False
    with NavigationTree.prems obtain cs c where
      c: "ch = Some cs" "c \<in> set cs" "(p, n) \<in> set (spec_nodes (Some t) c)"
      by (auto split: option.splits)
    then have "set (spec_nodes p n) \<subseteq> set (spec_nodes (Some t) c)"
      using NavigationTree.IH [of cs c "Some t"] by simp
    with c show ?thesis by auto
  qed
qed

text \<open>
  Claim C10 says that the direct children of a span-less node carry that node's
  display text as their container name. When that text is the empty string,
  \<open>lsp.SymbolInformation.create\<close> stores no container name: the child of the span-less
  node with empty text is in the output without one, and the symbol the claim
  describes is not.
\<close>

theorem unnamed_spanless_node_children:
  "spans ex_unnamed = []
   \<and> childItems ex_unnamed = Some [ex_leaf]
   \<and> fst (documentSymbol (drop 7) ex_position (Inr \<lparr>body = Some ex_unnamed\<rparr>) ex_server)
       = Inr [ex_symbol ''f'' KFunction 4 5 None]
   \<and> claimed_symbol ''file:///a.ts'' (Some (nav_text ex_unnamed), ex_leaf)
       \<notin> set [ex_symbol ''f'' KFunction 4 5 None]"
proof -
  have "claimed_symbol ''file:///a.ts'' (Some (nav_text ex_unnamed), ex_leaf)
      = ex_symbol ''f'' KFunction 4 5 (Some [])"
    using ex_leaf_claimed by (simp add: ex_unnamed_def)
  then show ?thesis
    by (simp add: ex_unnamed_symbols) (simp add: ex_unnamed_def ex_symbol_def)
qed

text \<open>
  Claim C10, amended. In \<open>documentSymbol\<close>, a navigation-tree node \<open>n\<close> with no
  source spans (anywhere in the tree, under the parent text \<open>p\<close>) still has its
  children visited: \<open>collectSymbol\<close> on \<open>n\<close> adds nothing for \<open>n\<close> and goes on to its
  children; every descendant with spans appears in the output; the direct children of
  \<open>n\<close> that have spans carry the display text of \<open>n\<close> as their container name when
  that text is not empty, and no container name when it is empty; and the output has
  one symbol per node with spans, so \<open>n\<close> itself produced none.
\<close>

theorem spanless_node_children:
  assumes "(p, n) \<in> set (spec_nodes None root)"
    and "spans n = []"
    and "fst (documentSymbol uriToPath params (Inr \<lparr>body = Some root\<rparr>) s) = Inr syms"
  shows "(\<forall>qd \<in> set (spec_nodes p n). spans (snd qd) \<noteq> [] \<longrightarrow>
            spec_symbol (td_uri params) qd \<in> set syms)
       \<and> (\<forall>cs c. childItems n = Some cs \<and> c \<in> set cs \<and> spans c \<noteq> [] \<longrightarrow>
            spec_symbol (td_uri params) (Some (nav_text n), c) \<in> set syms
            \<and> containerName (spec_symbol (td_uri params) (Some (nav_text n), c))
                = (if nav_text n = [] then None else Some (nav_text n)))
       \<and> length syms = length (filter has_spans (spec_nodes None root))
       \<and> collectSymbol (td_uri params) n p acc
           = (case childItems n of None \<Rightarrow> acc
              | Some cs \<Rightarrow> collectChildren (td_uri params) cs (nav_text n) acc)"
proof -
  have syms: "syms = spec_documentSymbol (td_uri params) root"
    using assms(3)
    by (simp add: documentSymbol_def Let_def spec_documentSymbol_def collect_flatten(1))
  have sub: "set (spec_nodes p n) \<subseteq> set (spec_nodes None root)"
    using assms(1) by (rule spec_nodes_descend)
  have desc: "spec_symbol (td_uri params) qd \<in> set syms"
    if "qd \<in> set (spec_nodes p n)" "spans (snd qd) \<noteq> []" for qd
    using that sub by (auto simp add: syms spec_documentSymbol_def has_spans_def)
  have child: "(Some (nav_text n), c) \<in> set (spec_nodes p n)"
    if "childItems n = Some cs" "c \<in> set cs" for cs c
    using spec_nodes_child [OF that, of p] spec_nodes_self [of "Some (nav_text n)" c] by blast
  have len: "length syms = length (filter has_spans (spec_nodes None root))"
    by (simp add: syms spec_documentSymbol_def)
  have visit: "collectSymbol (td_uri params) n p acc
           = (case childItems n of None \<Rightarrow> acc
              | Some cs \<Rightarrow> collectChildren (td_uri params) cs (nav_text n) acc)"
    using assms(2) by (cases n) (simp split: option.split)
  have "\<forall>qd \<in> set (spec_nodes p n). spans (snd qd) \<noteq> [] \<longrightarrow>
            spec_symbol (td_uri params) qd \<in> set syms"
    using desc by blast
  moreover have "\<forall>cs c. childItems n = Some cs \<and> c \<in> set cs \<and> spans c \<noteq> [] \<longrightarrow>
            spec_symbol (td_uri params) (Some (nav_text n), c) \<in> set syms
            \<and> containerName (spec_symbol (td_uri params) (Some (nav_text n), c))
                = (if nav_text n = [] then None else Some (nav_text n))"
  proof (intro allI impI conjI)
    fix cs c
    assume a: "childItems n = Some cs \<and> c \<in> set cs \<and> spans c \<noteq> []"
    then have "(Some (nav_text n), c) \<in> set (spec_nodes p n)"
      using child by blast
    with a show "spec_symbol (td_uri params) (Some (nav_text n), c) \<in> set syms"
      using desc [of "(Some (nav_text n), c)"] by simp
    show "containerName (spec_symbol (td_uri params) (Some (nav_text n), c))
        = (if nav_text n = [] then None else Some (nav_text n))"
      by (simp add: spec_symbol_def spec_container_def)
  qed
  ultimately show ?thesis using len visit by blast
qed

theorem spanless_node_children_witness:
  "ex_symbol ''f'' KFunction 4 5 (Some ''B'')
     \<in> set [ex_symbol ''A'' KClass 0 8 (Some ''<global>''), ex_symbol ''m'' KMethod 1 1 (Some ''A''),
            ex_symbol ''f'' KFunction 4 5 (Some ''B'')]
   \<and> length [ex_symbol ''A'' KClass 0 8 (Some ''<global>''), ex_symbol ''m'' KMethod 1 1 (Some ''A''),
            ex_symbol ''f'' KFunction 4 5 (Some ''B'')]
       = length (filter has_spans (spec_nodes None ex_tree))
   \<and> containerName (spec_symbol ''file:///a.ts'' (Some (nav_text ex_unnamed), ex_leaf)) = None"
proof -
  have a1: "(Some ''<global>'', ex_spanless) \<in> set (spec_nodes None ex_tree)"
    by (simp add: ex_tree_def ex_spanless_def)
  have a2: "spans ex_spanless = []"
    by (simp add: ex_spanless_def)
  note th = spanless_node_children [OF a1 a2 ex_symbols, of "[]"]
  have "spec_symbol ''file:///a.ts'' (Some ''B'', ex_leaf)
      \<in> set [ex_symbol ''A'' KClass 0 8 (Some ''<global>''), ex_symbol ''m'' KMethod 1 1 (Some ''A''),
            ex_symbol ''f'' KFunction 4 5 (Some ''B'')]"
    using th [THEN conjunct2, THEN conjunct1, rule_format, of "[ex_leaf]" ex_leaf]
    by (simp add: ex_spanless_def ex_leaf_def ex_position_def)
  moreover have "spec_symbol ''file:///a.ts'' (Some ''B'', ex_leaf)
      = ex_symbol ''f'' KFunction 4 5 (Some ''B'')"
    by (simp add: spec_symbol_def claimed_symbol_def spec_container_def ex_leaf_def ex_symbol_def
        ex_span_def toSymbolKind_def symbolKindsMapping_def toPosition_def js_sub_1)
  moreover have b1: "(None, ex_unnamed) \<in> set (spec_nodes None ex_unnamed)"
    by (rule spec_nodes_self)
  have b2: "spans ex_unnamed = []"
    by (simp add: ex_unnamed_def)
  have "containerName (spec_symbol ''file:///a.ts'' (Some (nav_text ex_unnamed), ex_leaf)) = None"
    using spanless_node_children [OF b1 b2 ex_unnamed_symbols, of "[]", THEN conjunct2,
        THEN conjunct1, rule_format, of "[ex_leaf]" ex_leaf]
    by (simp add: ex_unnamed_def ex_leaf_def ex_position_def ex_symbol_def)
  ultimately show ?thesis
    using th [THEN conjunct2, THEN conjunct2, THEN conjunct1] by simp
qed

section \<open>Rename\<close>

text \<open>
  Claim C6. For every rename request, if the subprocess response has no body, or
  reports the location as non-renamable (\<open>canRename\<close> false), or reports zero affected
  location groups, the operation returns a workspace edit with an empty change set and
  does not fail.
\<close>

theorem rename_refused:
  assumes "body result = None
     \<or> (\<exists>b. body result = Some b \<and> (\<not> canRename (info b) \<or> locs b = []))"
  shows "fst (rename uriToPath win params (Inr result) s) = Inr \<lparr>changes = []\<rparr>"
  using assms by (auto simp add: rename_def Let_def)

theorem rename_refused_witness:
  "fst (rename (drop 7) False ex_rename (Inr \<lparr>body = None\<rparr>) ex_server) = Inr \<lparr>changes = []\<rparr>
   \<and> fst (rename (drop 7) False ex_rename
        (Inr \<lparr>body = Some \<lparr>info = \<lparr>canRename = False\<rparr>,
               locs = [\<lparr>sg_file = ''/a.ts'', sg_locs = [ex_span 1 1]\<rparr>]\<rparr>\<rparr>) ex_server)
       = Inr \<lparr>changes = []\<rparr>
   \<and> fst (rename (drop 7) False ex_rename
        (Inr \<lparr>body = Some \<lparr>info = \<lparr>canRename = True\<rparr>, locs = []\<rparr>\<rparr>) ex_server)
       = Inr \<lparr>changes = []\<rparr>"
  using rename_refused [of "\<lparr>body = None\<rparr>" "drop 7" False ex_rename ex_server]
    rename_refused [of "\<lparr>body = Some \<lparr>info = \<lparr>canRename = False\<rparr>,
               locs = [\<lparr>sg_file = ''/a.ts'', sg_locs = [ex_span 1 1]\<rparr>]\<rparr>\<rparr>"
       "drop 7" False ex_rename ex_server]
    rename_refused [of "\<lparr>body = Some \<lparr>info = \<lparr>canRename = True\<rparr>, locs = []\<rparr>\<rparr>"
       "drop 7" False ex_rename ex_server]
  by simp

section \<open>Completion resolve\<close>

text \<open>
  Claim C9. For every completion-resolve request (the item carries the \<open>data\<close> that
  the request is built from, so a request is made) whose subprocess response has no
  body, the operation returns the input completion item unchanged: no field of the
  item, whatever further fields it has, is modified.
\<close>

theorem completionResolve_no_body:
  assumes "data item = Some d" and "body result = None"
  shows "fst (completionResolve item (Inr result) s) = Inr item"
  using assms by (simp add: completionResolve_def Let_def)

theorem completionResolve_no_body_witness:
  "fst (completionResolve ex_item (Inr \<lparr>body = None\<rparr>) ex_server) = Inr ex_item"
  using completionResolve_no_body [of ex_item
      "\<lparr>cdata_file = ''/a.ts'', cdata_line = 1, cdata_offset = 5\<rparr>" "\<lparr>body = None\<rparr>" ex_server]
  by (simp add: ex_item_def)

section \<open>Workspace symbols\<close>

lemma lastFileOrDummy_first:
  "openedDocumentUris s = (uri, t) # rest \<Longrightarrow>
   lastFileOrDummy uriToPath s = Inr (Some (uriToPath uri))"
  by (simp add: lastFileOrDummy_def)

lemma lastFileOrDummy_none_open:
  "openedDocumentUris s = [] \<Longrightarrow> initializeParams s = Some ip \<Longrightarrow>
   lastFileOrDummy uriToPath s =
     Inr (case rootUri ip of
            Some u \<Rightarrow> if u \<noteq> [] then Some (uriToPath u) else rootPath ip
          | None \<Rightarrow> rootPath ip)"
  by (simp add: lastFileOrDummy_def split: option.split)

text \<open>
  Claim C2 says that a workspace-symbol search with at least one open file is scoped
  to the most recently opened file. \<open>lastFileOrDummy\<close> returns from the first
  iteration over the keys of the open-file map, which is the earliest-inserted key
  still present. With a.ts opened and then b.ts, the search is scoped to a.ts, not to
  b.ts.
\<close>

theorem workspaceSymbol_scopes_to_first_opened:
  "tsp_sent (snd (workspaceSymbol (drop 7) False \<lparr>query = ''foo''\<rparr> (Inr \<lparr>body = None\<rparr>)
       (snd (didOpenTextDocument (drop 7) 2 (ex_open ''file:///b.ts'')
          (snd (didOpenTextDocument (drop 7) 1 (ex_open ''file:///a.ts'') ex_server))))))
     = tsp_sent (snd (didOpenTextDocument (drop 7) 2 (ex_open ''file:///b.ts'')
          (snd (didOpenTextDocument (drop 7) 1 (ex_open ''file:///a.ts'') ex_server))))
       @ [Request Navto (NavtoArgs (Some ''/a.ts'') ''foo'')]"
  using ex_two_open_state
  by (simp add: ex_two_open_def workspaceSymbol_def lastFileOrDummy_def tsp_request_def
      tsp_send_def tsp_sent_def)

end
